theory Spec2Isabelle
  imports Complex_Main
begin

section \<open>JavaScript values and the built-ins the monitor calls\<close>

text \<open>
  The monitor engine (src/server/monitorService.ts) handles values of type \<^verbatim>\<open>unknown\<close>:
  probe results, parsed JSON documents, the \<^verbatim>\<open>connection_json\<close> column. They are
  modelled by the JSON-shaped JavaScript values below.

  \<^item> \<open>JNum\<close> carries the exact mathematical value of a finite number; the rounding of
    IEEE doubles, \<^verbatim>\<open>NaN\<close> and the infinities are outside this type.
  \<^item> A string is the sequence of the bytes of its UTF-8 encoding.
  \<^item> \<open>JObj kvs\<close> is the plain object obtained by defining the properties \<open>kvs\<close> one
    after the other, so a later pair overwrites an earlier one with the same key.
  \<^item> Functions, class instances, \<^verbatim>\<open>BigInt\<close> and cyclic objects are not modelled.
\<close>

datatype jsval =
    JUndefined
  | JNull
  | JBool bool
  | JNum rat
  | JStr string
  | JArr "jsval list"
  | JObj "(string \<times> jsval) list"

text \<open>\<^verbatim>\<open>typeof v === 'object'\<close> (true of \<^verbatim>\<open>null\<close> as well).\<close>

definition typeof_object :: "jsval \<Rightarrow> bool" where
  "typeof_object v = (case v of JNull \<Rightarrow> True | JArr xs \<Rightarrow> True | JObj kvs \<Rightarrow> True | _ \<Rightarrow> False)"

text \<open>\<^verbatim>\<open>typeof v === 'object' && v !== null\<close>\<close>

definition is_object :: "jsval \<Rightarrow> bool" where
  "is_object v = (typeof_object v \<and> v \<noteq> JNull)"

definition isArray :: "jsval \<Rightarrow> bool" where
  "isArray v = (case v of JArr xs \<Rightarrow> True | _ \<Rightarrow> False)"

text \<open>\<^verbatim>\<open>v == null\<close>, the test behind \<^verbatim>\<open>??\<close> and \<^verbatim>\<open>?.\<close>\<close>

definition nullish :: "jsval \<Rightarrow> bool" where
  "nullish v = (v = JUndefined \<or> v = JNull)"

text \<open>\<^verbatim>\<open>a ?? b\<close>\<close>

definition coalesce :: "jsval \<Rightarrow> jsval \<Rightarrow> jsval" where
  "coalesce a b = (if nullish a then b else a)"

text \<open>The truthiness test of \<^verbatim>\<open>if (v)\<close>, \<^verbatim>\<open>!v\<close>, \<^verbatim>\<open>a || b\<close> and \<^verbatim>\<open>a && b\<close>.\<close>

definition truthy :: "jsval \<Rightarrow> bool" where
  "truthy v = (case v of JUndefined \<Rightarrow> False | JNull \<Rightarrow> False | JBool b \<Rightarrow> b
                | JNum r \<Rightarrow> r \<noteq> 0 | JStr s \<Rightarrow> s \<noteq> [] | _ \<Rightarrow> True)"

text \<open>
  \<^verbatim>\<open>v.k\<close> for an own property of a plain object; \<^verbatim>\<open>undefined\<close> when the property is
  missing. Properties inherited from \<^verbatim>\<open>Object.prototype\<close> are not modelled.
\<close>

definition get_prop :: "jsval \<Rightarrow> string \<Rightarrow> jsval" where
  "get_prop v k =
     (case v of
        JObj kvs \<Rightarrow> (case map_of (rev kvs) k of Some x \<Rightarrow> x | None \<Rightarrow> JUndefined)
      | _ \<Rightarrow> JUndefined)"

text \<open>
  \<^verbatim>\<open>left === right\<close>. Two primitives are strictly equal when they are the same value.
  An object is strictly equal only to itself (the same reference), never to a primitive
  and never to another object; the values compared by the monitor come from different
  sources (a probe result against a freshly parsed expectation), so they are never the
  same reference.
\<close>

definition strict_equals :: "jsval \<Rightarrow> jsval \<Rightarrow> bool" where
  "strict_equals l r = (if is_object l \<or> is_object r then False else l = r)"

subsection \<open>Characters, digits and whitespace\<close>

definition code :: "char \<Rightarrow> int" where
  "code c = of_char c"

definition is_digit :: "char \<Rightarrow> bool" where
  "is_digit c = (48 \<le> code c \<and> code c \<le> 57)"

definition digit_char :: "int \<Rightarrow> char" where
  "digit_char d = char_of (48 + d)"

definition int_of_digits :: "string \<Rightarrow> int" where
  "int_of_digits ds = foldl (\<lambda>n c. 10 * n + (code c - 48)) 0 ds"

text \<open>
  The white space removed by \<^verbatim>\<open>String.prototype.trim\<close> and split on by
  \<^verbatim>\<open>parseRedisCommand\<close>, within ASCII: space, tab, line feed, vertical tab, form feed, carriage return.
\<close>

definition is_space :: "char \<Rightarrow> bool" where
  "is_space c = (code c = 32 \<or> (9 \<le> code c \<and> code c \<le> 13))"

definition trim :: "string \<Rightarrow> string" where
  "trim s = rev (dropWhile is_space (rev (dropWhile is_space s)))"

definition toUpperCase :: "string \<Rightarrow> string" where
  "toUpperCase s = map (\<lambda>c. if 97 \<le> code c \<and> code c \<le> 122 then char_of (code c - 32) else c) s"

definition startsWith :: "string \<Rightarrow> string \<Rightarrow> bool" where
  "startsWith s p = (take (length p) s = p)"

text \<open>Splitting at runs of white space and dropping empty pieces: the maximal runs of characters that are not white space.\<close>

fun split_ws :: "string \<Rightarrow> string \<Rightarrow> string list" where
  "split_ws cur [] = (if cur = [] then [] else [rev cur])"
| "split_ws cur (c # cs) =
     (if is_space c then (if cur = [] then split_ws [] cs else rev cur # split_ws [] cs)
      else split_ws (c # cur) cs)"

subsection \<open>Numbers to strings\<close>

text \<open>The decimal digits of a nonnegative integer.\<close>

function show_digits :: "int \<Rightarrow> string" where
  "show_digits i =
     (if i < 10 then [digit_char i] else show_digits (i div 10) @ [digit_char (i mod 10)])"
  by pat_completeness auto
termination
  by (relation "measure nat") auto

declare show_digits.simps [simp del]

definition show_int :: "int \<Rightarrow> string" where
  "show_int i = (if i < 0 then CHR ''-'' # show_digits (- i) else show_digits i)"

fun frac_digits :: "nat \<Rightarrow> rat \<Rightarrow> string" where
  "frac_digits 0 r = []"
| "frac_digits (Suc n) r =
     (if r = 0 then []
      else digit_char \<lfloor>10 * r\<rfloor> # frac_digits n (10 * r - of_int \<lfloor>10 * r\<rfloor>))"

text \<open>
  \<^verbatim>\<open>String(n)\<close> for a finite number: the integer part, then the decimal expansion of
  the fraction. It is the text JavaScript prints for integers below \<open>10^21\<close> and for
  decimal fractions of at most 15 significant digits that are at least \<open>10^-6\<close>;
  elsewhere JavaScript prints the shortest text that reads back as the same double,
  or uses an exponent, and the expansion here is cut after 20 digits.
\<close>

definition String_number :: "rat \<Rightarrow> string" where
  "String_number r =
     (let a = \<bar>r\<bar>; ip = \<lfloor>a\<rfloor>; fp = a - of_int ip
      in (if r < 0 then ''-'' else '''') @ show_digits ip
         @ (if fp = 0 then '''' else CHR ''.'' # frac_digits 20 fp))"

text \<open>\<^verbatim>\<open>xs.join(sep)\<close>\<close>

definition join :: "string \<Rightarrow> string list \<Rightarrow> string" where
  "join sep xs = (case xs of [] \<Rightarrow> [] | y # ys \<Rightarrow> y @ concat (map (\<lambda>z. sep @ z) ys))"

text \<open>
  \<^verbatim>\<open>String(v)\<close>: an array prints its elements separated by commas, with \<^verbatim>\<open>null\<close> and
  \<^verbatim>\<open>undefined\<close> elements printed as nothing; a plain object prints as
  \<^verbatim>\<open>[object Object]\<close>.
\<close>

fun String :: "jsval \<Rightarrow> string" where
  "String JUndefined = ''undefined''"
| "String JNull = ''null''"
| "String (JBool b) = (if b then ''true'' else ''false'')"
| "String (JNum r) = String_number r"
| "String (JStr s) = s"
| "String (JArr xs) =
     join '','' (map (\<lambda>x. if x = JUndefined \<or> x = JNull then [] else String x) xs)"
| "String (JObj kvs) = ''[object Object]''"

subsection \<open>Own properties in enumeration order\<close>

text \<open>
  A key is an array index when it is the canonical decimal text of an integer below
  \<open>2^32 - 1\<close>.
\<close>

definition is_array_index :: "string \<Rightarrow> bool" where
  "is_array_index k =
     (k \<noteq> [] \<and> list_all is_digit k \<and> (k = ''0'' \<or> hd k \<noteq> CHR ''0'')
      \<and> length k \<le> 10 \<and> int_of_digits k < 4294967295)"

fun define_prop :: "string \<Rightarrow> 'a \<Rightarrow> (string \<times> 'a) list \<Rightarrow> (string \<times> 'a) list" where
  "define_prop k v [] = [(k, v)]"
| "define_prop k v ((k', v') # ps) =
     (if k = k' then (k, v) # ps else (k', v') # define_prop k v ps)"

text \<open>
  \<^verbatim>\<open>Object.entries\<close>: every key once, with the value defined last; array indices
  first, in ascending order, then the other keys in the order of their first definition.
\<close>

definition own_entries :: "(string \<times> 'a) list \<Rightarrow> (string \<times> 'a) list" where
  "own_entries kvs =
     (let ps = foldl (\<lambda>acc (k, v). define_prop k v acc) [] kvs
      in sort_key (\<lambda>(k, v). int_of_digits k) (filter (\<lambda>(k, v). is_array_index k) ps)
         @ filter (\<lambda>(k, v). \<not> is_array_index k) ps)"

subsection \<open>JSON.stringify\<close>

definition hex_digit :: "int \<Rightarrow> char" where
  "hex_digit d = (if d < 10 then char_of (48 + d) else char_of (87 + d))"

definition quote_char :: "char \<Rightarrow> string" where
  "quote_char c =
     (if c = CHR 0x22 then [CHR 0x5C, CHR 0x22]
      else if c = CHR 0x5C then [CHR 0x5C, CHR 0x5C]
      else if c = CHR 0x08 then [CHR 0x5C, CHR ''b'']
      else if c = CHR 0x0C then [CHR 0x5C, CHR ''f'']
      else if c = CHR 0x0A then [CHR 0x5C, CHR ''n'']
      else if c = CHR 0x0D then [CHR 0x5C, CHR ''r'']
      else if c = CHR 0x09 then [CHR 0x5C, CHR ''t'']
      else if code c < 32 then
        [CHR 0x5C, CHR ''u'', CHR ''0'', CHR ''0'', hex_digit (code c div 16), hex_digit (code c mod 16)]
      else [c])"

definition quote :: "string \<Rightarrow> string" where
  "quote s = CHR 0x22 # concat (map quote_char s) @ [CHR 0x22]"

text \<open>
  \<^verbatim>\<open>JSON.stringify(v)\<close> without indentation. Inside an array \<^verbatim>\<open>undefined\<close> prints as
  \<^verbatim>\<open>null\<close>; a property whose value is \<^verbatim>\<open>undefined\<close> is left out. The monitor calls it
  on objects and arrays only.
\<close>

fun JSON_stringify :: "jsval \<Rightarrow> string" where
  "JSON_stringify JUndefined = ''null''"
| "JSON_stringify JNull = ''null''"
| "JSON_stringify (JBool b) = (if b then ''true'' else ''false'')"
| "JSON_stringify (JNum r) = String_number r"
| "JSON_stringify (JStr s) = quote s"
| "JSON_stringify (JArr xs) = ''['' @ join '','' (map JSON_stringify xs) @ '']''"
| "JSON_stringify (JObj kvs) =
     ''{'' @ join '',''
        (map (\<lambda>(k, s). quote k @ '':'' @ s)
           (own_entries
              (map (\<lambda>(k, v). (k, JSON_stringify v)) (filter (\<lambda>(k, v). v \<noteq> JUndefined) kvs))))
      @ ''}''"

subsection \<open>JSON.parse\<close>

text \<open>
  A recursive-descent reader of the JSON grammar (RFC 8259), the grammar that
  \<^verbatim>\<open>JSON.parse\<close> accepts: \<open>None\<close> stands for the \<^verbatim>\<open>SyntaxError\<close> it throws.
\<close>

definition is_json_ws :: "char \<Rightarrow> bool" where
  "is_json_ws c = (code c = 32 \<or> code c = 9 \<or> code c = 10 \<or> code c = 13)"

definition skip_ws :: "string \<Rightarrow> string" where
  "skip_ws cs = dropWhile is_json_ws cs"

text \<open>Whether the next character after white space is \<open>c\<close>, and the text after it.\<close>

definition next_is :: "char \<Rightarrow> string \<Rightarrow> bool" where
  "next_is c cs = (case skip_ws cs of [] \<Rightarrow> False | x # r \<Rightarrow> x = c)"

definition after_ws :: "string \<Rightarrow> string" where
  "after_ws cs = tl (skip_ws cs)"

definition scale10 :: "rat \<Rightarrow> int \<Rightarrow> rat" where
  "scale10 r e = (if 0 \<le> e then r * 10 ^ nat e else r / 10 ^ nat (- e))"

definition lex_sign :: "string \<Rightarrow> bool \<times> string" where
  "lex_sign cs =
     (case cs of
        [] \<Rightarrow> (False, cs)
      | c # r \<Rightarrow> if c = CHR ''-'' then (True, r) else if c = CHR ''+'' then (False, r) else (False, cs))"

definition lex_fraction :: "string \<Rightarrow> string \<times> string" where
  "lex_fraction cs =
     (case cs of
        [] \<Rightarrow> ([], cs)
      | c # r \<Rightarrow> if c = CHR ''.'' then (takeWhile is_digit r, dropWhile is_digit r) else ([], cs))"

text \<open>An optional exponent part; \<open>None\<close> when an \<open>e\<close> is not followed by digits.\<close>

definition lex_exponent :: "string \<Rightarrow> (int \<times> string) option" where
  "lex_exponent cs =
     (case cs of
        [] \<Rightarrow> Some (0, cs)
      | c # r \<Rightarrow>
          if c = CHR ''e'' \<or> c = CHR ''E'' then
            (case lex_sign r of (neg, r1) \<Rightarrow>
               if takeWhile is_digit r1 = [] then None
               else Some ((if neg then - 1 else 1) * int_of_digits (takeWhile is_digit r1),
                          dropWhile is_digit r1))
          else Some (0, cs))"

text \<open>The value of sign, integer digits, fraction digits and exponent, computed exactly.\<close>

definition decimal_value :: "bool \<Rightarrow> string \<Rightarrow> string \<Rightarrow> int \<Rightarrow> rat" where
  "decimal_value neg ip fp ex =
     scale10 (of_int ((if neg then - 1 else 1) * int_of_digits (ip @ fp))) (ex - int (length fp))"

text \<open>
  A JSON number: an optional minus sign, an integer part that is \<open>0\<close> or starts with a
  nonzero digit, an optional fraction with at least one digit, an optional exponent.
\<close>

definition lex_json_number :: "string \<Rightarrow> (rat \<times> string) option" where
  "lex_json_number cs =
     (let neg = (case cs of [] \<Rightarrow> False | c # r \<Rightarrow> c = CHR ''-'');
          cs1 = (if neg then tl cs else cs);
          ip = (case cs1 of [] \<Rightarrow> []
                | c # r \<Rightarrow> if c = CHR ''0'' then [c] else takeWhile is_digit cs1);
          cs2 = drop (length ip) cs1
      in if ip = [] then None
         else (case cs2 of
                 [] \<Rightarrow> Some (decimal_value neg ip [] 0, cs2)
               | d # r \<Rightarrow>
                   (case lex_fraction cs2 of (fp, cs3) \<Rightarrow>
                      if d = CHR ''.'' \<and> fp = [] then None
                      else (case lex_exponent cs3 of
                              None \<Rightarrow> None
                            | Some (ex, cs4) \<Rightarrow> Some (decimal_value neg ip fp ex, cs4)))))"

definition hex_value :: "char \<Rightarrow> int option" where
  "hex_value c =
     (if is_digit c then Some (code c - 48)
      else if 97 \<le> code c \<and> code c \<le> 102 then Some (code c - 87)
      else if 65 \<le> code c \<and> code c \<le> 70 then Some (code c - 55)
      else None)"

definition hex4 :: "string \<Rightarrow> int option" where
  "hex4 cs =
     (case map hex_value (take 4 cs) of
        [Some a, Some b, Some c, Some d] \<Rightarrow> Some (((a * 16 + b) * 16 + c) * 16 + d)
      | _ \<Rightarrow> None)"

text \<open>
  The UTF-8 bytes of a code unit written as a \<open>u\<close> escape with four hexadecimal digits.
  Surrogate code units (\<open>D800\<close> to \<open>DFFF\<close>) have no UTF-8 encoding of their own; a
  text that escapes one is outside this model and is read as malformed.
\<close>

definition utf8 :: "int \<Rightarrow> string option" where
  "utf8 n =
     (if n < 128 then Some [char_of n]
      else if n < 2048 then Some [char_of (192 + n div 64), char_of (128 + n mod 64)]
      else if 55296 \<le> n \<and> n < 57344 then None
      else Some [char_of (224 + n div 4096), char_of (128 + (n div 64) mod 64),
                 char_of (128 + n mod 64)])"

definition escape_char :: "char \<Rightarrow> char option" where
  "escape_char e =
     (if e = CHR 0x22 \<or> e = CHR 0x5C \<or> e = CHR ''/'' then Some e
      else if e = CHR ''b'' then Some (CHR 0x08)
      else if e = CHR ''f'' then Some (CHR 0x0C)
      else if e = CHR ''n'' then Some (CHR 0x0A)
      else if e = CHR ''r'' then Some (CHR 0x0D)
      else if e = CHR ''t'' then Some (CHR 0x09)
      else None)"

text \<open>
  The characters of a string after its opening quote, up to the closing quote: the
  string read (accumulated in reverse) and the rest of the text. A raw control
  character is an error.
\<close>

fun lex_string :: "string \<Rightarrow> string \<Rightarrow> (string \<times> string) option" where
  "lex_string acc [] = None"
| "lex_string acc [c] = (if c = CHR 0x22 then Some (rev acc, []) else None)"
| "lex_string acc (c # e # cs) =
     (if c = CHR 0x22 then Some (rev acc, e # cs)
      else if c = CHR 0x5C then
        (if e = CHR ''u'' then
           (case hex4 cs of
              None \<Rightarrow> None
            | Some n \<Rightarrow>
                (case utf8 n of
                   None \<Rightarrow> None
                 | Some bytes \<Rightarrow> lex_string (rev bytes @ acc) (drop 4 cs)))
         else (case escape_char e of
                 None \<Rightarrow> None
               | Some x \<Rightarrow> lex_string (x # acc) cs))
      else if code c < 32 then None
      else lex_string (c # acc) (e # cs))"

definition literal :: "string \<Rightarrow> jsval \<Rightarrow> string \<Rightarrow> (jsval \<times> string) option" where
  "literal w v cs = (if take (length w) cs = w then Some (v, drop (length w) cs) else None)"

lemma length_skip_ws: "length (skip_ws cs) \<le> length cs"
  by (simp add: skip_ws_def length_dropWhile_le)

lemma length_after_ws: "length (after_ws cs) \<le> length cs"
  using length_skip_ws [of cs] by (simp add: after_ws_def)

lemma lex_string_shorter: "lex_string acc cs = Some (s, r) \<Longrightarrow> length r < length cs"
  by (induction acc cs rule: lex_string.induct)
     (fastforce split: if_splits option.splits)+

text \<open>
  \<open>parse_value\<close> reads one value; \<open>parse_elements\<close> reads the elements of a nonempty
  array after its bracket and \<open>parse_members\<close> the members of a nonempty object after
  its brace, each up to the closing bracket. The tests \<open>length r < length cs\<close> hold for
  every result of \<open>parse_value\<close> (lemma \<open>parse_shorter\<close> below); they are written out
  so that the recursion is visibly on a shorter text.
\<close>

function (sequential) parse_value :: "string \<Rightarrow> (jsval \<times> string) option"
  and parse_elements :: "jsval list \<Rightarrow> string \<Rightarrow> (jsval \<times> string) option"
  and parse_members :: "(string \<times> jsval) list \<Rightarrow> string \<Rightarrow> (jsval \<times> string) option"
where
  "parse_value [] = None"
| "parse_value (c # cs) =
     (if is_json_ws c then parse_value cs
      else if c = CHR ''['' then
        (if next_is CHR '']'' cs then Some (JArr [], after_ws cs) else parse_elements [] cs)
      else if c = CHR ''{'' then
        (if next_is CHR ''}'' cs then Some (JObj [], after_ws cs) else parse_members [] cs)
      else if c = CHR 0x22 then
        (case lex_string [] cs of None \<Rightarrow> None | Some (s, r) \<Rightarrow> Some (JStr s, r))
      else if c = CHR ''t'' then literal ''rue'' (JBool True) cs
      else if c = CHR ''f'' then literal ''alse'' (JBool False) cs
      else if c = CHR ''n'' then literal ''ull'' JNull cs
      else (case lex_json_number (c # cs) of None \<Rightarrow> None | Some (x, r) \<Rightarrow> Some (JNum x, r)))"
| "parse_elements acc cs =
     (case parse_value cs of
        None \<Rightarrow> None
      | Some (v, r) \<Rightarrow>
          if length r < length cs then
            (if next_is CHR '','' r then parse_elements (acc @ [v]) (after_ws r)
             else if next_is CHR '']'' r then Some (JArr (acc @ [v]), after_ws r)
             else None)
          else None)"
| "parse_members acc cs =
     (if \<not> next_is CHR 0x22 cs then None
      else (case lex_string [] (after_ws cs) of
              None \<Rightarrow> None
            | Some (k, r1) \<Rightarrow>
                if \<not> next_is CHR '':'' r1 then None
                else (case parse_value (after_ws r1) of
                        None \<Rightarrow> None
                      | Some (v, r2) \<Rightarrow>
                          if length r2 < length cs then
                            (if next_is CHR '','' r2 then parse_members (acc @ [(k, v)]) (after_ws r2)
                             else if next_is CHR ''}'' r2 then Some (JObj (acc @ [(k, v)]), after_ws r2)
                             else None)
                          else None)))"
  by pat_completeness auto
termination
proof (relation "measure (\<lambda>x. case x of
          Inl cs \<Rightarrow> 2 * length cs
        | Inr (Inl (acc, cs)) \<Rightarrow> 2 * length cs + 1
        | Inr (Inr (acc, cs)) \<Rightarrow> 2 * length cs + 1)", goal_cases)
  case 1
  then show ?case by simp
next
  case (2 c cs)
  then show ?case by simp
next
  case (3 c cs)
  then show ?case by simp
next
  case (4 c cs)
  then show ?case by simp
next
  case (5 acc cs)
  then show ?case by simp
next
  case (6 acc cs x2 x y)
  then show ?case using length_after_ws [of y] by simp
next
  case (7 acc cs x2 x y)
  then show ?case
    using length_after_ws [of y] length_after_ws [of cs]
      lex_string_shorter [of "[]" "after_ws cs" x y]
    by simp
next
  case (8 acc cs x2 x y x2a xa ya)
  then show ?case using length_after_ws [of ya] by simp
qed

declare parse_value.simps [simp del]

text \<open>\<^verbatim>\<open>JSON.parse(s)\<close>: one value, with nothing but white space after it.\<close>

definition JSON_parse :: "string \<Rightarrow> jsval option" where
  "JSON_parse s =
     (case parse_value s of
        None \<Rightarrow> None
      | Some (v, r) \<Rightarrow> if skip_ws r = [] then Some v else None)"

subsection \<open>Number(v)\<close>

text \<open>The result of a conversion to a number, which may be \<^verbatim>\<open>NaN\<close> or infinite.\<close>

datatype jsnumber = Fin rat | NaN | PosInfinity | NegInfinity

definition radix_value :: "int \<Rightarrow> string \<Rightarrow> int option" where
  "radix_value base cs =
     (if cs = [] \<or> \<not> list_all (\<lambda>c. case hex_value c of Some d \<Rightarrow> d < base | None \<Rightarrow> False) cs
      then None
      else Some (foldl (\<lambda>n c. base * n + (case hex_value c of Some d \<Rightarrow> d | None \<Rightarrow> 0)) 0 cs))"

text \<open>
  The conversion of a string: white space around it is ignored, the empty string is 0,
  \<open>0x\<close>, \<open>0o\<close> and \<open>0b\<close> introduce unsigned integers in radix 16, 8 and 2, and a
  decimal literal may have a sign, may begin or end with its point and may have an
  exponent. Everything else is \<^verbatim>\<open>NaN\<close>.
\<close>

definition StringToNumber :: "string \<Rightarrow> jsnumber" where
  "StringToNumber s =
     (let t = trim s in
      if t = [] then Fin 0
      else if take 2 t = ''0x'' \<or> take 2 t = ''0X'' then
        (case radix_value 16 (drop 2 t) of Some n \<Rightarrow> Fin (of_int n) | None \<Rightarrow> NaN)
      else if take 2 t = ''0o'' \<or> take 2 t = ''0O'' then
        (case radix_value 8 (drop 2 t) of Some n \<Rightarrow> Fin (of_int n) | None \<Rightarrow> NaN)
      else if take 2 t = ''0b'' \<or> take 2 t = ''0B'' then
        (case radix_value 2 (drop 2 t) of Some n \<Rightarrow> Fin (of_int n) | None \<Rightarrow> NaN)
      else
        (case lex_sign t of (neg, u) \<Rightarrow>
           if u = ''Infinity'' then (if neg then NegInfinity else PosInfinity)
           else
             (case lex_fraction (dropWhile is_digit u) of (fp, u2) \<Rightarrow>
                if takeWhile is_digit u = [] \<and> fp = [] then NaN
                else (case lex_exponent u2 of
                        Some (ex, []) \<Rightarrow> Fin (decimal_value neg (takeWhile is_digit u) fp ex)
                      | _ \<Rightarrow> NaN))))"

text \<open>\<^verbatim>\<open>Number(v)\<close>: arrays and plain objects are converted through their string form.\<close>

definition Number_of :: "jsval \<Rightarrow> jsnumber" where
  "Number_of v =
     (case v of
        JUndefined \<Rightarrow> NaN
      | JNull \<Rightarrow> Fin 0
      | JBool b \<Rightarrow> Fin (if b then 1 else 0)
      | JNum r \<Rightarrow> Fin r
      | JStr s \<Rightarrow> StringToNumber s
      | _ \<Rightarrow> StringToNumber (String v))"

definition String_jsnumber :: "jsnumber \<Rightarrow> string" where
  "String_jsnumber n =
     (case n of Fin r \<Rightarrow> String_number r | NaN \<Rightarrow> ''NaN''
      | PosInfinity \<Rightarrow> ''Infinity'' | NegInfinity \<Rightarrow> ''-Infinity'')"

text \<open>\<^verbatim>\<open>Number.isFinite(n)\<close>\<close>

definition isFinite :: "jsnumber \<Rightarrow> bool" where
  "isFinite n = (case n of Fin r \<Rightarrow> True | _ \<Rightarrow> False)"

text \<open>\<^verbatim>\<open>n < k\<close> and \<^verbatim>\<open>n > k\<close> for a finite \<open>k\<close>; every comparison with \<^verbatim>\<open>NaN\<close> is false.\<close>

definition number_less :: "jsnumber \<Rightarrow> rat \<Rightarrow> bool" where
  "number_less n k = (case n of Fin r \<Rightarrow> r < k | NegInfinity \<Rightarrow> True | _ \<Rightarrow> False)"

definition number_greater :: "jsnumber \<Rightarrow> rat \<Rightarrow> bool" where
  "number_greater n k = (case n of Fin r \<Rightarrow> k < r | PosInfinity \<Rightarrow> True | _ \<Rightarrow> False)"

section \<open>Data model of the monitor engine (src/server/monitorService.ts)\<close>

text \<open>The unions \<^verbatim>\<open>MonitorStatus\<close> and \<^verbatim>\<open>MonitorType\<close>.\<close>

datatype MonitorStatus = Pending | Up | Down

datatype MonitorType = Http | Mysql | Redis | Nats | Tcp

definition status_name :: "MonitorStatus \<Rightarrow> string" where
  "status_name s = (case s of Pending \<Rightarrow> ''pending'' | Up \<Rightarrow> ''up'' | Down \<Rightarrow> ''down'')"

text \<open>
  The interface \<^verbatim>\<open>MonitorEndpoint\<close>, a row of the table \<^verbatim>\<open>monitor_endpoints\<close> as the
  engine reads it. The fields \<^verbatim>\<open>id\<close> and \<^verbatim>\<open>method\<close> are renamed (\<open>endpoint_id\<close>,
  \<open>method_ep\<close>). Integer columns are integers; a nullable text column is an option;
  the JSON columns are JavaScript values. The status column is NOT NULL, but the engine
  reads it through \<^verbatim>\<open>endpoint.status ?? 'pending'\<close>, and the option type keeps that
  branch. \<open>is_paused\<close> is the TINYINT column (\<^verbatim>\<open>true\<close> reads as 1).
\<close>

record MonitorEndpoint =
  endpoint_id :: int
  group_id :: int
  group_name :: "string option"
  name :: string
  monitor_type :: MonitorType
  url :: string
  method_ep :: string
  headers_json :: jsval
  body_text :: "string option"
  expected_status :: int
  expected_json_path :: "string option"
  expected_json_value :: "string option"
  connection_json :: jsval
  probe_command :: "string option"
  expected_probe_value :: "string option"
  interval_seconds :: int
  down_retries :: int
  up_retries :: int
  status :: "MonitorStatus option"
  consecutive_failures :: int
  consecutive_successes :: int
  is_paused :: int

text \<open>\<^verbatim>\<open>CheckResult\<close>, \<^verbatim>\<open>ProbeValidationResult\<close> and \<^verbatim>\<open>StatusComputation\<close>.\<close>

record CheckResult =
  checkPassed :: bool
  responseCode :: "int option"
  matchedValue :: "string option"
  errorMessage :: "string option"

record ProbeValidationResult =
  ok :: bool
  matchedValue_pv :: "string option"
  errorMessage_pv :: "string option"

record StatusComputation =
  status_sc :: MonitorStatus
  failures :: int
  successes :: int

section \<open>Parsing and comparing values\<close>

text \<open>
  \<^verbatim>\<open>parseJson\<close>: \<^verbatim>\<open>null\<close> for a missing or empty value and for a text that
  \<^verbatim>\<open>JSON.parse\<close> rejects.
\<close>

definition parseJson :: "jsval \<Rightarrow> jsval" where
  "parseJson v =
     (if nullish v \<or> v = JStr [] then JNull
      else (case JSON_parse (String v) of Some x \<Rightarrow> x | None \<Rightarrow> JNull))"

text \<open>
  \<^verbatim>\<open>Object.fromEntries(Object.entries(o).map(([key, value]) => [key, String(value)]))\<close>
\<close>

definition header_entries :: "jsval \<Rightarrow> (string \<times> string) list" where
  "header_entries v =
     (case v of JObj kvs \<Rightarrow> map (\<lambda>(k, x). (k, String x)) (own_entries kvs) | _ \<Rightarrow> [])"

definition parseHeaders :: "jsval \<Rightarrow> (string \<times> string) list" where
  "parseHeaders headersJson =
     (if \<not> truthy headersJson then []
      else if typeof_object headersJson \<and> \<not> isArray headersJson then header_entries headersJson
      else (let parsed = parseJson headersJson
            in if truthy parsed \<and> typeof_object parsed \<and> \<not> isArray parsed
               then header_entries parsed else []))"

definition parseConnection :: "jsval \<Rightarrow> jsval" where
  "parseConnection connectionJson =
     (if \<not> truthy connectionJson then JObj []
      else if typeof_object connectionJson \<and> \<not> isArray connectionJson then connectionJson
      else (let parsed = parseJson connectionJson
            in if truthy parsed \<and> typeof_object parsed \<and> \<not> isArray parsed
               then parsed else JObj []))"

text \<open>\<^verbatim>\<open>normalizeComparable\<close>: \<open>None\<close> is the result \<^verbatim>\<open>null\<close>.\<close>

definition normalizeComparable :: "jsval \<Rightarrow> string option" where
  "normalizeComparable v =
     (if v = JUndefined then Some ''__UNDEFINED__''
      else if v = JNull then None
      else if typeof_object v then Some (JSON_stringify v)
      else Some (String v))"

definition deepEqual :: "jsval \<Rightarrow> jsval \<Rightarrow> bool" where
  "deepEqual left right =
     (if typeof_object left \<and> left \<noteq> JNull \<and> typeof_object right \<and> right \<noteq> JNull
      then JSON_stringify left = JSON_stringify right
      else strict_equals left right)"

text \<open>
  \<^verbatim>\<open>parseExpectedValue\<close>. The raw value is an expectation column of the endpoint, of
  type \<^verbatim>\<open>string | null\<close>; \<open>None\<close> is \<^verbatim>\<open>null\<close>.
\<close>

definition parseExpectedValue :: "string option \<Rightarrow> jsval" where
  "parseExpectedValue rawValue =
     (case rawValue of
        None \<Rightarrow> JNull
      | Some raw \<Rightarrow>
          (let trimmed = trim raw
           in if trimmed = [] then JStr []
              else (case JSON_parse trimmed of Some v \<Rightarrow> v | None \<Rightarrow> JStr trimmed)))"

text \<open>
  \<^verbatim>\<open>resolveJsonPath\<close>. The regular expression finds, from left to right, either a
  maximal run of characters other than the point and the two brackets, or a bracketed
  run of digits; any other character is skipped.
\<close>

datatype path_token = Key string | Index int

definition is_key_char :: "char \<Rightarrow> bool" where
  "is_key_char c = (c \<noteq> CHR ''.'' \<and> c \<noteq> CHR ''['' \<and> c \<noteq> CHR '']'')"

function path_tokens :: "string \<Rightarrow> path_token list" where
  "path_tokens [] = []"
| "path_tokens (c # cs) =
     (if is_key_char c then
        Key (c # takeWhile is_key_char cs) # path_tokens (dropWhile is_key_char cs)
      else if c = CHR ''['' \<and> takeWhile is_digit cs \<noteq> []
              \<and> take 1 (dropWhile is_digit cs) = '']'' then
        Index (int_of_digits (takeWhile is_digit cs)) # path_tokens (tl (dropWhile is_digit cs))
      else path_tokens cs)"
  by pat_completeness auto
termination
proof (relation "measure length", goal_cases)
  case 1
  then show ?case by simp
next
  case (2 c cs)
  then show ?case using length_dropWhile_le [of is_key_char cs] by simp
next
  case (3 c cs)
  then show ?case using length_dropWhile_le [of is_digit cs] by simp
next
  case (4 c cs)
  then show ?case by simp
qed

text \<open>
  \<^verbatim>\<open>acc[token]\<close> on an object or an array: an own property, an element, or the length
  of an array (inherited properties are not modelled).
\<close>

definition element :: "jsval list \<Rightarrow> int \<Rightarrow> jsval" where
  "element xs i = (if 0 \<le> i \<and> i < int (length xs) then xs ! nat i else JUndefined)"

definition index_value :: "jsval \<Rightarrow> path_token \<Rightarrow> jsval" where
  "index_value acc t =
     (case acc of
        JObj kvs \<Rightarrow> get_prop acc (case t of Key k \<Rightarrow> k | Index i \<Rightarrow> show_int i)
      | JArr xs \<Rightarrow>
          (case t of
             Index i \<Rightarrow> element xs i
           | Key k \<Rightarrow> if k = ''length'' then JNum (of_nat (length xs))
                      else if is_array_index k then element xs (int_of_digits k)
                      else JUndefined)
      | _ \<Rightarrow> JUndefined)"

definition resolveJsonPath :: "jsval \<Rightarrow> string option \<Rightarrow> jsval" where
  "resolveJsonPath data path =
     (case path of
        None \<Rightarrow> JUndefined
      | Some p \<Rightarrow>
          if p = [] then JUndefined
          else foldl (\<lambda>acc t. if nullish acc then JUndefined
                              else if \<not> typeof_object acc then JUndefined
                              else index_value acc t)
                 data (path_tokens p))"

definition validateExpectedProbeValue :: "jsval \<Rightarrow> string option \<Rightarrow> ProbeValidationResult" where
  "validateExpectedProbeValue actual expectedRaw =
     (if expectedRaw = None \<or> trim (case expectedRaw of Some raw \<Rightarrow> raw | None \<Rightarrow> []) = []
      then \<lparr>ok = True, matchedValue_pv = normalizeComparable actual, errorMessage_pv = None\<rparr>
      else (let expected = parseExpectedValue expectedRaw;
                ok' = deepEqual actual expected
            in \<lparr>ok = ok', matchedValue_pv = normalizeComparable actual,
                errorMessage_pv = (if ok' then None else Some ''Probe value mismatch'')\<rparr>))"

section \<open>The status state machine\<close>

text \<open>
  \<^verbatim>\<open>Number(x) || d\<close> on an integer \<open>x\<close>: the default \<open>d\<close> replaces a falsy \<open>x\<close>, and
  the only falsy integer is 0.
\<close>

definition number_or :: "int \<Rightarrow> int \<Rightarrow> int" where
  "number_or x d = (if x = 0 then d else x)"

text \<open>\<^verbatim>\<open>endpoint.status ?? 'pending'\<close>\<close>

definition status_or_pending :: "MonitorStatus option \<Rightarrow> MonitorStatus" where
  "status_or_pending s = (case s of None \<Rightarrow> Pending | Some st \<Rightarrow> st)"

text \<open>
  \<^verbatim>\<open>computeStatus\<close>, branch by branch. The source assigns to the local variables
  \<^verbatim>\<open>failures\<close>, \<^verbatim>\<open>successes\<close> and \<^verbatim>\<open>status\<close>; here each branch returns the record of
  their final values.
\<close>

definition computeStatus :: "'a MonitorEndpoint_scheme \<Rightarrow> bool \<Rightarrow> StatusComputation" where
  "computeStatus endpoint passed =
    (let downRetries = max 1 (number_or (down_retries endpoint) 1);
         upRetries = max 1 (number_or (up_retries endpoint) 1);
         failures0 = number_or (consecutive_failures endpoint) 0;
         successes0 = number_or (consecutive_successes endpoint) 0;
         status0 = status_or_pending (status endpoint)
     in
       if passed then
         (let successes1 = successes0 + 1;
              failures1 = 0
          in if status0 = Down then
               (if successes1 \<ge> upRetries
                then \<lparr>status_sc = Up, failures = failures1, successes = successes1\<rparr>
                else \<lparr>status_sc = status0, failures = failures1, successes = successes1\<rparr>)
             else \<lparr>status_sc = Up, failures = failures1, successes = successes1\<rparr>)
       else
         (let failures1 = failures0 + 1;
              successes1 = 0
          in if status0 = Up then
               (if failures1 \<ge> downRetries
                then \<lparr>status_sc = Down, failures = failures1, successes = successes1\<rparr>
                else \<lparr>status_sc = status0, failures = failures1, successes = successes1\<rparr>)
             else if failures1 \<ge> downRetries
               then \<lparr>status_sc = Down, failures = failures1, successes = successes1\<rparr>
               else \<lparr>status_sc = status0, failures = failures1, successes = successes1\<rparr>))"

section \<open>Effects, outcomes and asynchronous tasks\<close>

text \<open>
  A thrown value is an \<^verbatim>\<open>Error\<close> with its message, or any other value. The handlers of
  the monitor read \<^verbatim>\<open>error instanceof Error ? error.message : fallback\<close>.
\<close>

datatype exn = Error string | Thrown jsval

definition message_or :: "exn \<Rightarrow> string \<Rightarrow> string" where
  "message_or error fallback = (case error of Error m \<Rightarrow> m | Thrown v \<Rightarrow> fallback)"

text \<open>
  What awaiting an operation gives: its value, an exception (a rejected promise), or
  nothing at all, when the operation never settles. Durations are not modelled:
  \<open>Returns\<close> and \<open>Throws\<close> stand for an answer that arrives before any timer that
  guards the operation, \<open>Hangs\<close> for an answer that does not arrive.
\<close>

datatype 'a outcome = Returns 'a | Throws exn | Hangs

text \<open>The requests the engine sends and the notification records it builds.\<close>

record http_request =
  req_url :: string
  req_method :: string
  req_headers :: "(string \<times> string) list"
  req_body :: "string option"

record http_response =
  response_status :: int
  response_text :: "string outcome"

text \<open>The argument of \<^verbatim>\<open>mysql.createConnection\<close>: a URL or discrete options.\<close>

datatype mysql_target =
    MysqlUrl string
  | MysqlOptions string jsnumber "string option" "string option" "string option" rat

text \<open>
  The argument of \<^verbatim>\<open>createClient\<close>: a URL, or the socket options (host, port,
  connect timeout), user name, password and database.
\<close>

datatype redis_options =
    RedisUrl string
  | RedisSocket string jsnumber rat "string option" "string option" "jsnumber option"

text \<open>The argument of the NATS \<^verbatim>\<open>connect\<close>: servers, user, pass, token, timeout.\<close>

datatype nats_options =
  NatsOptions "string list" "string option" "string option" "string option" jsnumber

text \<open>
  A configured notification target (\<^verbatim>\<open>normalizeNotificationTarget\<close> in
  src/server/config.ts). \<open>target_events = None\<close> is a target whose \<^verbatim>\<open>events\<close> is not
  an array.
\<close>

record NotificationTarget =
  target_name :: string
  target_type :: string
  target_url :: string
  target_events :: "string list option"

text \<open>The event object that \<^verbatim>\<open>runCheck\<close> passes to \<^verbatim>\<open>notifyStatusChange\<close>.\<close>

record StatusChangeEvent =
  endpointId :: int
  endpointName :: string
  groupId :: int
  groupName :: "string option"
  monitorType :: MonitorType
  url_ev :: string
  previousStatus :: MonitorStatus
  currentStatus :: MonitorStatus
  responseCode_ev :: "int option"
  responseTimeMs :: int
  checkedAt :: string
  errorMessage_ev :: "string option"
  matchedValue_ev :: "string option"

record notify_response =
  response_ok :: bool
  response_status_nr :: int
  response_json :: "jsval outcome"
  response_body :: "string outcome"

text \<open>
  The observable effects of the engine: every operation it starts on the network, and
  every line it writes to the console.
\<close>

datatype effect =
    HttpFetch http_request
  | MysqlCreateConnection mysql_target
  | MysqlQuery string
  | MysqlEnd
  | RedisConnect redis_options
  | RedisSendCommand "string list"
  | RedisQuit
  | RedisDestroy
  | NatsConnect nats_options
  | NatsJetstreamManager
  | NatsGetAccountInfo
  | NatsStreamInfo string
  | NatsClose
  | TcpCreateConnection string jsnumber
  | NotifyFetch NotificationTarget StatusChangeEvent
  | ConsoleLog string
  | ConsoleError string

definition is_network :: "effect \<Rightarrow> bool" where
  "is_network e = (case e of ConsoleLog s \<Rightarrow> False | ConsoleError s \<Rightarrow> False | _ \<Rightarrow> True)"

text \<open>
  An asynchronous computation, run to its end: its outcome and the effects it started,
  in order.
\<close>

type_synonym 'a task = "'a outcome \<times> effect list"

definition returns :: "'a \<Rightarrow> 'a task" where
  "returns x = (Returns x, [])"

definition throw :: "exn \<Rightarrow> 'a task" where
  "throw e = (Throws e, [])"

text \<open>Starting an operation of the outside world, which answers with \<open>r\<close>.\<close>

definition perform :: "effect \<Rightarrow> 'a outcome \<Rightarrow> 'a task" where
  "perform e r = (r, [e])"

text \<open>\<^verbatim>\<open>const x = await m; k(x)\<close>\<close>

definition await :: "'a task \<Rightarrow> ('a \<Rightarrow> 'b task) \<Rightarrow> 'b task" where
  "await m k =
     (case m of
        (Returns x, es) \<Rightarrow> (case k x of (r, es') \<Rightarrow> (r, es @ es'))
      | (Throws e, es) \<Rightarrow> (Throws e, es)
      | (Hangs, es) \<Rightarrow> (Hangs, es))"

text \<open>\<^verbatim>\<open>try { m } catch (error) { h(error) }\<close>\<close>

definition try_catch :: "'a task \<Rightarrow> (exn \<Rightarrow> 'a task) \<Rightarrow> 'a task" where
  "try_catch m h =
     (case m of
        (Throws e, es) \<Rightarrow> (case h e of (r, es') \<Rightarrow> (r, es @ es'))
      | _ \<Rightarrow> m)"

text \<open>
  \<^verbatim>\<open>try { m } finally { f }\<close>: the block \<open>f\<close> runs when \<open>m\<close> has returned or thrown;
  when \<open>f\<close> returns, the outcome of \<open>m\<close> stands, and when \<open>f\<close> throws or hangs, so
  does the whole.
\<close>

definition try_finally :: "'a task \<Rightarrow> unit task \<Rightarrow> 'a task" where
  "try_finally m f =
     (case m of
        (Hangs, es) \<Rightarrow> (Hangs, es)
      | (r, es) \<Rightarrow>
          (case f of
             (Returns u, es') \<Rightarrow> (r, es @ es')
           | (Throws e, es') \<Rightarrow> (Throws e, es @ es')
           | (Hangs, es') \<Rightarrow> (Hangs, es @ es')))"

text \<open>
  \<^verbatim>\<open>withTimeout\<close>: the race of a promise against a timer that rejects with a labelled
  error. A promise that settles in time wins; one that does not is replaced by the
  rejection of the timer.
\<close>

definition withTimeout :: "'a task \<Rightarrow> jsnumber \<Rightarrow> string \<Rightarrow> 'a task" where
  "withTimeout promise timeoutMs label =
     (case promise of
        (Hangs, es) \<Rightarrow>
          (Throws (Error (label @ '' timed out after '' @ String_jsnumber timeoutMs @ ''ms'')), es)
      | _ \<Rightarrow> promise)"

text \<open>\<^verbatim>\<open>promise.catch(() => v)\<close>\<close>

definition catch_value :: "'a outcome \<Rightarrow> 'a \<Rightarrow> 'a outcome" where
  "catch_value r v = (case r of Throws e \<Rightarrow> Returns v | _ \<Rightarrow> r)"

text \<open>
  \<^verbatim>\<open>Promise.all\<close> over tasks that have all been started: every task runs, whatever the
  others do. The result rejects when a task rejects, is pending for ever when none
  rejects and one hangs, and otherwise holds all the values. The effects of the tasks
  are listed task by task, one of the orders in which they can interleave.
\<close>

fun all_settled :: "'a outcome list \<Rightarrow> 'a list outcome" where
  "all_settled [] = Returns []"
| "all_settled (r # rs) =
     (case r of
        Throws e \<Rightarrow> Throws e
      | Hangs \<Rightarrow> (case all_settled rs of Throws e \<Rightarrow> Throws e | _ \<Rightarrow> Hangs)
      | Returns x \<Rightarrow>
          (case all_settled rs of
             Returns xs \<Rightarrow> Returns (x # xs)
           | Throws e \<Rightarrow> Throws e
           | Hangs \<Rightarrow> Hangs))"

definition promise_all :: "'a task list \<Rightarrow> 'a list task" where
  "promise_all ts = (all_settled (map fst ts), concat (map snd ts))"

definition console_log :: "string \<Rightarrow> unit task" where
  "console_log s = perform (ConsoleLog s) (Returns ())"

definition console_error :: "string \<Rightarrow> unit task" where
  "console_error s = perform (ConsoleError s) (Returns ())"

section \<open>The configuration and the outside world\<close>

text \<open>
  The values of src/server/config.ts that the engine reads, the clock, and the answer
  of the outside world to every operation the engine can start. The libraries
  (\<^verbatim>\<open>fetch\<close>, mysql2, redis, nats, \<^verbatim>\<open>node:net\<close>) are not part of the repository: their
  behaviour is a parameter, and a property proved for every world holds whatever they
  answer.
\<close>

record world =
  requestTimeoutMs :: rat
  notifications_enabled :: bool
  notification_targets :: "NotificationTarget list"
  db_now :: int
  started_at :: int
  finished_at :: int
  iso_now :: string
  abort_message :: string
  http_fetch :: "http_request \<Rightarrow> http_response outcome"
  mysql_createConnection :: "mysql_target \<Rightarrow> unit outcome"
  mysql_query :: "string \<Rightarrow> jsval outcome"
  mysql_end :: "unit outcome"
  redis_createClient :: "redis_options \<Rightarrow> exn option"
  redis_connect :: "unit outcome"
  redis_sendCommand :: "string list \<Rightarrow> jsval outcome"
  redis_isOpen :: bool
  redis_quit :: "unit outcome"
  redis_destroy :: "exn option"
  nats_connect :: "nats_options \<Rightarrow> unit outcome"
  nats_jetstreamManager :: "unit outcome"
  nats_getAccountInfo :: "jsval outcome"
  nats_streamInfo :: "string \<Rightarrow> jsval outcome"
  nats_close :: "unit outcome"
  tcp_connect :: "string \<Rightarrow> jsnumber \<Rightarrow> unit outcome"
  notify_fetch :: "NotificationTarget \<Rightarrow> notify_response outcome"

section \<open>The probe executors\<close>

definition ALLOWED_METHODS :: "string set" where
  "ALLOWED_METHODS = {''GET'', ''POST'', ''PUT'', ''PATCH'', ''DELETE'', ''HEAD'', ''OPTIONS''}"

text \<open>\<^verbatim>\<open>v == null ? undefined : String(v)\<close>\<close>

definition opt_string :: "jsval \<Rightarrow> string option" where
  "opt_string v = (if nullish v then None else Some (String v))"

text \<open>\<^verbatim>\<open>typeof v === 'string' && v.trim()\<close>\<close>

definition nonblank_string :: "jsval \<Rightarrow> bool" where
  "nonblank_string v = (case v of JStr s \<Rightarrow> trim s \<noteq> [] | _ \<Rightarrow> False)"

text \<open>The failure result of the connection probes, with response code 500.\<close>

definition check_failure :: "string \<Rightarrow> CheckResult" where
  "check_failure msg =
     \<lparr>checkPassed = False, responseCode = Some 500, matchedValue = None, errorMessage = Some msg\<rparr>"

text \<open>The result the connection probes build from the comparator's verdict.\<close>

definition probe_result :: "ProbeValidationResult \<Rightarrow> CheckResult" where
  "probe_result expectedResult =
     \<lparr>checkPassed = ok expectedResult,
      responseCode = Some (if ok expectedResult then 200 else 500),
      matchedValue = matchedValue_pv expectedResult,
      errorMessage = errorMessage_pv expectedResult\<rparr>"

subsection \<open>HTTP\<close>

text \<open>
  The request carries the signal of an \<^verbatim>\<open>AbortController\<close> that a timer aborts after
  \<^verbatim>\<open>config.requestTimeoutMs\<close>: a fetch or a body read that does not settle in time
  rejects with the abort error of the runtime.
\<close>

definition abortable :: "world \<Rightarrow> 'a outcome \<Rightarrow> 'a outcome" where
  "abortable w r = (case r of Hangs \<Rightarrow> Throws (Error (abort_message w)) | _ \<Rightarrow> r)"

text \<open>
  The end of the \<^verbatim>\<open>try\<close> block of \<^verbatim>\<open>runHttpCheck\<close>, from the assignment of
  \<^verbatim>\<open>checkPassed\<close> on.
\<close>

definition http_verdict ::
  "'a MonitorEndpoint_scheme \<Rightarrow> http_response \<Rightarrow> bool \<Rightarrow> string option \<Rightarrow> string option
     \<Rightarrow> CheckResult" where
  "http_verdict endpoint response jsonValidationOk matched error =
     (let passed = (response_status response = expected_status endpoint \<and> jsonValidationOk)
      in \<lparr>checkPassed = passed,
          responseCode = Some (response_status response),
          matchedValue = matched,
          errorMessage =
            (if \<not> passed \<and> error = None
             then Some (''Expected HTTP '' @ show_int (expected_status endpoint) @ '', got ''
                        @ show_int (response_status response))
             else error)\<rparr>)"

text \<open>
  \<^verbatim>\<open>runHttpCheck\<close>. The source keeps the result in four local variables that the
  \<^verbatim>\<open>catch\<close> block completes; here each way out of the \<^verbatim>\<open>try\<close> block returns the
  record of their values at that point.
\<close>

definition runHttpCheck :: "world \<Rightarrow> 'a MonitorEndpoint_scheme \<Rightarrow> CheckResult task" where
  \<open>runHttpCheck w endpoint =
     (let method = (if method_ep endpoint \<in> ALLOWED_METHODS then method_ep endpoint else ''GET'');
          headers = parseHeaders (headers_json endpoint);
          body = (case body_text endpoint of
                    None \<Rightarrow> None
                  | Some b \<Rightarrow> if b = [] then None else Some b);
          shouldIncludeBody = (method \<noteq> ''GET'' \<and> method \<noteq> ''HEAD'' \<and> body \<noteq> None);
          request = \<lparr>req_url = url endpoint, req_method = method, req_headers = headers,
                     req_body = (if shouldIncludeBody then body else None)\<rparr>
      in case abortable w (http_fetch w request) of
           Hangs \<Rightarrow> (Hangs, [HttpFetch request])
         | Throws error \<Rightarrow>
             (Returns \<lparr>checkPassed = False, responseCode = None, matchedValue = None,
                       errorMessage = Some (message_or error ''Unknown request error'')\<rparr>,
              [HttpFetch request])
         | Returns response \<Rightarrow>
             (case expected_json_path endpoint of
                None \<Rightarrow> (Returns (http_verdict endpoint response True None None), [HttpFetch request])
              | Some path \<Rightarrow>
                  if path = [] \<or> expected_json_value endpoint = None
                  then (Returns (http_verdict endpoint response True None None), [HttpFetch request])
                  else
                    (case abortable w (response_text response) of
                       Hangs \<Rightarrow> (Hangs, [HttpFetch request])
                     | Throws error \<Rightarrow>
                         (Returns \<lparr>checkPassed = False,
                                   responseCode = Some (response_status response),
                                   matchedValue = None,
                                   errorMessage = Some (message_or error ''Unknown request error'')\<rparr>,
                          [HttpFetch request])
                     | Returns payload \<Rightarrow>
                         (let parsed = parseJson (JStr payload)
                          in if nullish parsed then
                               (Returns (http_verdict endpoint response False None
                                   (Some ''Expected JSON response but payload was not valid JSON'')),
                                [HttpFetch request])
                             else
                               (let actual = resolveJsonPath parsed (Some path);
                                    expected = parseExpectedValue (expected_json_value endpoint);
                                    matched = (if actual = JUndefined then None
                                               else normalizeComparable actual);
                                    jsonValidationOk = deepEqual actual expected
                                in (Returns (http_verdict endpoint response jsonValidationOk matched
                                       (if jsonValidationOk then None
                                        else Some (''JSON path mismatch at "'' @ path @ ''"''))),
                                    [HttpFetch request]))))))\<close>

subsection \<open>MySQL\<close>

text \<open>
  The first column of the first row: \<^verbatim>\<open>null\<close> unless the rows are a nonempty array
  whose first element is an object with a first key that is not the empty string.
\<close>

definition first_column :: "jsval \<Rightarrow> jsval" where
  "first_column rows =
     (case rows of
        JArr (JObj kvs # rest) \<Rightarrow>
          (case own_entries kvs of [] \<Rightarrow> JNull | (k, v) # others \<Rightarrow> if k = [] then JNull else v)
      | JArr (JArr (x # xs) # rest) \<Rightarrow> x
      | _ \<Rightarrow> JNull)"

definition mysql_target_of :: "world \<Rightarrow> jsval \<Rightarrow> mysql_target" where
  "mysql_target_of w connection =
     (if nonblank_string (get_prop connection ''url'')
      then MysqlUrl (String (get_prop connection ''url''))
      else MysqlOptions
             (String (coalesce (get_prop connection ''host'') (JStr ''127.0.0.1'')))
             (Number_of (coalesce (get_prop connection ''port'') (JNum 3306)))
             (opt_string (get_prop connection ''user''))
             (opt_string (get_prop connection ''password''))
             (opt_string (get_prop connection ''database''))
             (requestTimeoutMs w))"

text \<open>
  \<^verbatim>\<open>runMysqlCheck\<close>. The variable \<^verbatim>\<open>conn\<close> is assigned only when
  \<^verbatim>\<open>createConnection\<close> has returned, and the \<^verbatim>\<open>finally\<close> block ends the connection
  only then. Neither \<^verbatim>\<open>createConnection\<close> nor \<^verbatim>\<open>query\<close> is passed to
  \<^verbatim>\<open>withTimeout\<close>.
\<close>

definition runMysqlCheck :: "world \<Rightarrow> 'a MonitorEndpoint_scheme \<Rightarrow> CheckResult task" where
  "runMysqlCheck w endpoint =
     (let connection = parseConnection (connection_json endpoint);
          target = mysql_target_of w connection;
          conn = (mysql_createConnection w target = Returns ())
      in try_finally
           (try_catch
              (await (perform (MysqlCreateConnection target) (mysql_createConnection w target))
                 (\<lambda>c. let query = (case probe_command endpoint of
                                     None \<Rightarrow> ''SELECT 1 AS health''
                                   | Some cmd \<Rightarrow> if trim cmd = [] then ''SELECT 1 AS health''
                                                 else trim cmd)
                      in await (perform (MysqlQuery query) (mysql_query w query))
                           (\<lambda>rows. returns (probe_result
                               (validateExpectedProbeValue (first_column rows)
                                  (expected_probe_value endpoint))))))
              (\<lambda>error. returns (check_failure (message_or error ''MySQL check failed''))))
           (if conn then perform MysqlEnd (catch_value (mysql_end w) ()) else returns ()))"

subsection \<open>Redis\<close>

definition parseRedisCommand :: "string option \<Rightarrow> string list" where
  "parseRedisCommand probeCommand =
     (case probeCommand of
        None \<Rightarrow> [''PING'']
      | Some cmd \<Rightarrow>
          if cmd = [] \<or> trim cmd = [] then [''PING'']
          else (case parseJson (JStr cmd) of
                  JArr (x # xs) \<Rightarrow> map String (x # xs)
                | _ \<Rightarrow> split_ws [] (trim cmd)))"

definition redis_options_of :: "world \<Rightarrow> jsval \<Rightarrow> redis_options" where
  "redis_options_of w connection =
     (if nonblank_string (get_prop connection ''url'')
      then RedisUrl (String (get_prop connection ''url''))
      else RedisSocket
             (String (coalesce (get_prop connection ''host'') (JStr ''127.0.0.1'')))
             (Number_of (coalesce (get_prop connection ''port'') (JNum 6379)))
             (requestTimeoutMs w)
             (opt_string (get_prop connection ''username''))
             (opt_string (get_prop connection ''password''))
             (if nullish (get_prop connection ''database'') then None
              else Some (Number_of (get_prop connection ''database''))))"

text \<open>
  \<^verbatim>\<open>runRedisCheck\<close>. \<^verbatim>\<open>createClient\<close> is called before the \<^verbatim>\<open>try\<close> block, so an
  exception it throws leaves the function. In the \<^verbatim>\<open>finally\<close> block a failing
  \<^verbatim>\<open>quit\<close> is answered by \<^verbatim>\<open>destroy\<close>.
\<close>

definition runRedisCheck :: "world \<Rightarrow> 'a MonitorEndpoint_scheme \<Rightarrow> CheckResult task" where
  \<open>runRedisCheck w endpoint =
     (let connection = parseConnection (connection_json endpoint);
          options = redis_options_of w connection
      in case redis_createClient w options of
           Some error \<Rightarrow> throw error
         | None \<Rightarrow>
             try_finally
               (try_catch
                  (await (withTimeout (perform (RedisConnect options) (redis_connect w))
                            (Fin (requestTimeoutMs w)) ''Redis connect'')
                     (\<lambda>c. let command = parseRedisCommand (probe_command endpoint)
                          in await (withTimeout
                                      (perform (RedisSendCommand command) (redis_sendCommand w command))
                                      (Fin (requestTimeoutMs w)) ''Redis command'')
                               (\<lambda>rawResult.
                                  let commandName =
                                        toUpperCase (case command of [] \<Rightarrow> [] | c0 # cs \<Rightarrow> c0);
                                      expectedRaw =
                                        (case expected_probe_value endpoint of
                                           Some x \<Rightarrow> Some x
                                         | None \<Rightarrow> if commandName = ''PING'' then Some ''"PONG"''
                                                   else None)
                                  in returns (probe_result
                                       (validateExpectedProbeValue rawResult expectedRaw)))))
                  (\<lambda>error. returns (check_failure (message_or error ''Redis check failed''))))
               (if redis_isOpen w then
                  (case redis_quit w of
                     Throws error \<Rightarrow>
                       (case redis_destroy w of
                          Some e \<Rightarrow> (Throws e, [RedisQuit, RedisDestroy])
                        | None \<Rightarrow> (Returns (), [RedisQuit, RedisDestroy]))
                   | r \<Rightarrow> (r, [RedisQuit]))
                else returns ()))\<close>

subsection \<open>NATS\<close>

definition nats_options_of :: "world \<Rightarrow> jsval \<Rightarrow> nats_options" where
  "nats_options_of w connection =
     (let serversRaw =
            coalesce (get_prop connection ''servers'')
              (coalesce (get_prop connection ''server'')
                 (coalesce (get_prop connection ''url'') (JStr ''nats://127.0.0.1:4222'')))
      in NatsOptions
           (case serversRaw of JArr items \<Rightarrow> map String items | _ \<Rightarrow> [String serversRaw])
           (opt_string (get_prop connection ''user''))
           (opt_string (get_prop connection ''password''))
           (opt_string (get_prop connection ''token''))
           (Number_of (coalesce (get_prop connection ''timeoutMs'') (JNum (requestTimeoutMs w)))))"

text \<open>
  \<^verbatim>\<open>runNatsCheck\<close>. The connection is made first, inside the \<^verbatim>\<open>try\<close> block; the probe
  command is read after it. The variable \<^verbatim>\<open>nc\<close> is assigned only when the guarded
  \<^verbatim>\<open>connect\<close> has returned, and the \<^verbatim>\<open>finally\<close> block awaits \<^verbatim>\<open>nc.close()\<close> only
  then, with no handler of its own.
\<close>

definition runNatsCheck :: "world \<Rightarrow> 'a MonitorEndpoint_scheme \<Rightarrow> CheckResult task" where
  \<open>runNatsCheck w endpoint =
     (let connection = parseConnection (connection_json endpoint);
          options = nats_options_of w connection;
          connecting = withTimeout (perform (NatsConnect options) (nats_connect w options))
                         (Fin (requestTimeoutMs w)) ''NATS connect'';
          nc = (fst connecting = Returns ());
          validated = (\<lambda>actualValue.
             returns (probe_result
               (validateExpectedProbeValue actualValue
                  (case expected_probe_value endpoint of Some x \<Rightarrow> Some x | None \<Rightarrow> Some ''"ok"''))))
      in await (console_log (''Connecting to NATS servers: '' @ JSON_stringify connection))
           (\<lambda>u. try_finally
              (try_catch
                 (await connecting
                    (\<lambda>c. let command = (case probe_command endpoint of
                                          None \<Rightarrow> ''jetstream.info''
                                        | Some cmd \<Rightarrow> if trim cmd = [] then ''jetstream.info''
                                                      else trim cmd)
                         in if command = ''jetstream.info'' then
                              await (perform NatsJetstreamManager (nats_jetstreamManager w))
                                (\<lambda>jsm. await (withTimeout
                                                (perform NatsGetAccountInfo (nats_getAccountInfo w))
                                                (Fin (requestTimeoutMs w)) ''JetStream info'')
                                   (\<lambda>accountInfo.
                                      validated (if \<not> nullish accountInfo then JStr ''ok'' else JNull)))
                            else if startsWith command ''stream.info:'' then
                              (let streamName = trim (drop (length ''stream.info:'') command)
                               in if streamName = [] then
                                    returns (check_failure ''stream.info command requires stream name'')
                                  else
                                    await (perform NatsJetstreamManager (nats_jetstreamManager w))
                                      (\<lambda>jsm. await (withTimeout
                                                      (perform (NatsStreamInfo streamName)
                                                         (nats_streamInfo w streamName))
                                                      (Fin (requestTimeoutMs w)) ''JetStream stream info'')
                                         (\<lambda>streamInfo.
                                            validated
                                              (coalesce
                                                 (get_prop (get_prop streamInfo ''config'') ''name'')
                                                 JNull))))
                            else validated (JStr ''ok'')))
                 (\<lambda>error. returns (check_failure (message_or error ''NATS check failed''))))
              (if nc then perform NatsClose (nats_close w) else returns ())))\<close>

subsection \<open>TCP\<close>

text \<open>
  \<^verbatim>\<open>runTcpCheck\<close>. The port is validated (\<open>invalid_port\<close> is the condition of the
  source, \<^verbatim>\<open>!Number.isFinite(port) || port < 1 || port > 65535\<close>) before the socket is
  created. The answer of
  the world to \<^verbatim>\<open>net.createConnection\<close> is \<open>Returns\<close> for the event \<^verbatim>\<open>connect\<close>,
  \<open>Throws\<close> for the event \<^verbatim>\<open>error\<close> (or an exception of the call, which the promise
  turns into a rejection) and \<open>Hangs\<close> when neither event comes.
\<close>

definition invalid_port :: "jsnumber \<Rightarrow> bool" where
  "invalid_port port = (\<not> isFinite port \<or> number_less port 1 \<or> number_greater port 65535)"

definition runTcpCheck :: "world \<Rightarrow> 'a MonitorEndpoint_scheme \<Rightarrow> CheckResult task" where
  \<open>runTcpCheck w endpoint =
     (let connection = parseConnection (connection_json endpoint);
          host = String (coalesce (get_prop connection ''host'') (JStr ''127.0.0.1''));
          port = Number_of (coalesce (get_prop connection ''port'') (JNum 80));
          timeoutMs = Number_of (coalesce (get_prop connection ''timeoutMs'')
                                    (JNum (requestTimeoutMs w)))
      in if invalid_port port then
           returns (check_failure ''Invalid TCP port in connection_json'')
         else
           try_catch
             (await (withTimeout (perform (TcpCreateConnection host port) (tcp_connect w host port))
                       timeoutMs ''TCP connect'')
                (\<lambda>c. returns (probe_result
                   (validateExpectedProbeValue (JStr ''open'')
                      (case expected_probe_value endpoint of
                         Some x \<Rightarrow> Some x
                       | None \<Rightarrow> Some ''"open"'')))))
             (\<lambda>error. returns (check_failure (message_or error ''TCP check failed''))))\<close>

section \<open>The notification dispatcher (src/server/notifier.js)\<close>

definition isValidEvent :: "MonitorStatus \<Rightarrow> bool" where
  "isValidEvent s = (s = Up \<or> s = Down)"

text \<open>
  \<^verbatim>\<open>notifyTarget\<close>: one request per target; a Slack answer must be \<^verbatim>\<open>ok\<close> both as an
  HTTP response and in its JSON body, a webhook answer must be an HTTP success. The
  request bodies (\<^verbatim>\<open>buildSlackPayload\<close>, \<^verbatim>\<open>buildWebhookPayload\<close>) are functions of the
  target and the event, which the effect records.
\<close>

definition notifyTarget :: "world \<Rightarrow> NotificationTarget \<Rightarrow> StatusChangeEvent \<Rightarrow> unit task" where
  "notifyTarget w target event =
     (if target_type target = ''slack'' then
        await (perform (NotifyFetch target event) (notify_fetch w target))
          (\<lambda>response.
             await (catch_value (response_json response) JNull, [])
               (\<lambda>payload.
                  if \<not> response_ok response \<or> \<not> truthy (get_prop payload ''ok'') then
                    throw (Error (''Slack chat.postMessage failed (''
                                   @ show_int (response_status_nr response) @ ''): ''
                                   @ String (coalesce (get_prop payload ''error'')
                                               (JStr ''unknown_error''))))
                  else returns ()))
      else
        await (perform (NotifyFetch target event) (notify_fetch w target))
          (\<lambda>response.
             if \<not> response_ok response then
               await (catch_value (response_body response) [], [])
                 (\<lambda>body. throw (Error (''Notification request failed (''
                                         @ show_int (response_status_nr response) @ ''): ''
                                         @ (if body = [] then ''no response body'' else body))))
             else returns ()))"

text \<open>Whether the callback of \<^verbatim>\<open>notifyStatusChange\<close> goes on to deliver to a target.\<close>

definition subscribed :: "NotificationTarget \<Rightarrow> MonitorStatus \<Rightarrow> bool" where
  "subscribed target s =
     (case target_events target of
        None \<Rightarrow> True
      | Some events \<Rightarrow> status_name s \<in> set events)"

text \<open>The body of the callback that \<^verbatim>\<open>notifyStatusChange\<close> maps over the targets.\<close>

definition notify_one :: "world \<Rightarrow> StatusChangeEvent \<Rightarrow> NotificationTarget \<Rightarrow> unit task" where
  "notify_one w event target =
     (if \<not> subscribed target (currentStatus event) then returns ()
      else try_catch (notifyTarget w target event)
             (\<lambda>error.
                console_error
                  (''[notify] target=''
                   @ (if target_name target \<noteq> [] then target_name target else target_type target)
                   @ '' event='' @ status_name (currentStatus event) @ '' failed: ''
                   @ (case error of Error m \<Rightarrow> m | Thrown v \<Rightarrow> String v))))"

definition notifyStatusChange :: "world \<Rightarrow> StatusChangeEvent \<Rightarrow> unit task" where
  "notifyStatusChange w event =
     await (console_log (''[notify] status change detected for endpoint=''
                         @ show_int (endpointId event) @ '' status=''
                         @ status_name (currentStatus event)))
       (\<lambda>u. if \<not> notifications_enabled w then returns ()
            else if \<not> isValidEvent (currentStatus event) then returns ()
            else if notification_targets w = [] then returns ()
            else await (promise_all (map (notify_one w event) (notification_targets w)))
                   (\<lambda>done_all. returns ()))"

text \<open>
  The last statement of src/server/notifier.js: when the module is loaded it sets a
  timer of two seconds whose callback logs a line and calls \<^verbatim>\<open>notifyStatusChange\<close>
  with the event written there.
\<close>

definition startup_event :: StatusChangeEvent where
  "startup_event =
     \<lparr>endpointId = 12, endpointName = ''Payments API'', groupId = 3,
      groupName = Some ''Payments'', monitorType = Http,
      url_ev = ''https://api.example.com/payments/health'',
      previousStatus = Up, currentStatus = Down, responseCode_ev = Some 503,
      responseTimeMs = 1842, checkedAt = ''2026-02-20T15:30:00.000Z'',
      errorMessage_ev = Some ''Expected HTTP 200, got 503'', matchedValue_ev = None\<rparr>"

definition notifier_startup_timer :: "world \<Rightarrow> unit task" where
  "notifier_startup_timer w =
     await (console_log ''[notify] notifier initialized'')
       (\<lambda>u. notifyStatusChange w startup_event)"

section \<open>Running a check\<close>

text \<open>
  A row of \<^verbatim>\<open>monitor_endpoints\<close>: the columns the engine reads and the columns only the
  \<^verbatim>\<open>UPDATE\<close> of \<^verbatim>\<open>runCheck\<close> writes. The DATETIME columns count seconds.
\<close>

record EndpointRow = MonitorEndpoint +
  last_checked_at :: "int option"
  last_response_code :: "int option"
  last_error :: "string option"
  last_match_value :: "string option"
  next_check_at :: int

text \<open>A row of \<^verbatim>\<open>monitor_check_runs\<close>.\<close>

record CheckRun =
  run_endpoint_id :: int
  run_status :: MonitorStatus
  run_response_code :: "int option"
  run_matched_value :: "string option"
  run_error_message :: "string option"
  run_response_time_ms :: int

text \<open>\<^verbatim>\<open>MonitorCheckedPayload\<close>, the payload of the event \<^verbatim>\<open>monitor:checked\<close>.\<close>

record MonitorCheckedPayload =
  endpointId_pl :: int
  groupId_pl :: int
  monitorType_pl :: MonitorType
  status_pl :: MonitorStatus
  responseCode_pl :: "int option"
  lastCheckedAt :: string
  lastError :: "string option"
  lastMatchValue :: "string option"
  consecutiveFailures :: int
  consecutiveSuccesses :: int
  responseTimeMs_pl :: int
  errorMessage_pl :: "string option"

text \<open>
  The state the engine shares with its collaborators: the two tables, and the events
  emitted on \<^verbatim>\<open>monitorEvents\<close>. The database is taken to answer every query.
\<close>

record system =
  monitor_endpoints :: "int \<rightharpoonup> EndpointRow"
  monitor_check_runs :: "CheckRun list"
  emitted :: "MonitorCheckedPayload list"

text \<open>
  The \<^verbatim>\<open>UPDATE monitor_endpoints ... WHERE id = ?\<close> of \<^verbatim>\<open>runCheck\<close>. Both occurrences of
  \<^verbatim>\<open>NOW()\<close> in one statement are the same instant, \<open>now\<close>; the interval is the
  parameter bound from \<^verbatim>\<open>endpoint.interval_seconds\<close>.
\<close>

definition update_endpoint ::
  "int \<Rightarrow> StatusComputation \<Rightarrow> CheckResult \<Rightarrow> int \<Rightarrow> int \<Rightarrow> (int \<rightharpoonup> EndpointRow)
     \<Rightarrow> (int \<rightharpoonup> EndpointRow)" where
  "update_endpoint now next result interval ident table =
     (case table ident of
        None \<Rightarrow> table
      | Some row \<Rightarrow>
          table(ident \<mapsto>
            row\<lparr>status := Some (status_sc next),
                consecutive_failures := failures next,
                consecutive_successes := successes next,
                last_checked_at := Some now,
                last_response_code := responseCode result,
                last_error := errorMessage result,
                last_match_value := matchedValue result,
                next_check_at := now + interval\<rparr>))"

text \<open>
  The data model keeps both counters of every stored endpoint at 0 or above; the columns
  start at 0 (\<^verbatim>\<open>DEFAULT 0\<close>).
\<close>

definition counters_nonnegative :: "(int \<rightharpoonup> EndpointRow) \<Rightarrow> bool" where
  "counters_nonnegative table =
     (\<forall>row \<in> ran table. 0 \<le> consecutive_failures row \<and> 0 \<le> consecutive_successes row)"

definition run_probe :: "world \<Rightarrow> 'a MonitorEndpoint_scheme \<Rightarrow> CheckResult task" where
  "run_probe w endpoint =
     (case monitor_type endpoint of
        Mysql \<Rightarrow> runMysqlCheck w endpoint
      | Redis \<Rightarrow> runRedisCheck w endpoint
      | Nats \<Rightarrow> runNatsCheck w endpoint
      | Tcp \<Rightarrow> runTcpCheck w endpoint
      | Http \<Rightarrow> runHttpCheck w endpoint)"

text \<open>
  \<^verbatim>\<open>runCheck\<close>: the payload it resolves to (\<open>None\<close> for a paused endpoint), its
  effects, and the state it leaves. A probe that throws or hangs ends \<^verbatim>\<open>runCheck\<close>
  before anything is written.
\<close>

definition runCheck ::
  "world \<Rightarrow> 'a MonitorEndpoint_scheme \<Rightarrow> system \<Rightarrow> MonitorCheckedPayload option task \<times> system" where
  "runCheck w endpoint sys =
     (if is_paused endpoint = 1 then (returns None, sys)
      else
        (let previous = status_or_pending (status endpoint)
         in case run_probe w endpoint of
              (Throws e, es) \<Rightarrow> ((Throws e, es), sys)
            | (Hangs, es) \<Rightarrow> ((Hangs, es), sys)
            | (Returns result, es) \<Rightarrow>
                (let next = computeStatus endpoint (checkPassed result);
                     elapsed = finished_at w - started_at w;
                     sys1 = sys\<lparr>monitor_endpoints :=
                                   update_endpoint (db_now w) next result
                                     (interval_seconds endpoint) (endpoint_id endpoint)
                                     (monitor_endpoints sys)\<rparr>;
                     sys2 = sys1\<lparr>monitor_check_runs := monitor_check_runs sys1 @
                                   [\<lparr>run_endpoint_id = endpoint_id endpoint,
                                     run_status = status_sc next,
                                     run_response_code = responseCode result,
                                     run_matched_value = matchedValue result,
                                     run_error_message = errorMessage result,
                                     run_response_time_ms = elapsed\<rparr>]\<rparr>;
                     payload = \<lparr>endpointId_pl = endpoint_id endpoint,
                                groupId_pl = group_id endpoint,
                                monitorType_pl = monitor_type endpoint,
                                status_pl = status_sc next,
                                responseCode_pl = responseCode result,
                                lastCheckedAt = iso_now w,
                                lastError = errorMessage result,
                                lastMatchValue = matchedValue result,
                                consecutiveFailures = failures next,
                                consecutiveSuccesses = successes next,
                                responseTimeMs_pl = elapsed,
                                errorMessage_pl = errorMessage result\<rparr>;
                     sys3 = sys2\<lparr>emitted := emitted sys2 @ [payload]\<rparr>
                 in if previous \<noteq> status_sc next \<and> (status_sc next = Up \<or> status_sc next = Down)
                    then
                      (await (Returns (), es)
                         (\<lambda>u. await (notifyStatusChange w
                                        \<lparr>endpointId = endpoint_id endpoint,
                                         endpointName = name endpoint,
                                         groupId = group_id endpoint,
                                         groupName = group_name endpoint,
                                         monitorType = monitor_type endpoint,
                                         url_ev = url endpoint,
                                         previousStatus = previous,
                                         currentStatus = status_sc next,
                                         responseCode_ev = responseCode result,
                                         responseTimeMs = elapsed,
                                         checkedAt = lastCheckedAt payload,
                                         errorMessage_ev = errorMessage result,
                                         matchedValue_ev = matchedValue result\<rparr>)
                                 (\<lambda>u'. returns (Some payload))),
                       sys3)
                    else ((Returns (Some payload), es), sys3))))"

text \<open>
  \<^verbatim>\<open>triggerCheckNow\<close>: the endpoint is read from the table (\<^verbatim>\<open>getEndpointById\<close>) and
  checked.
\<close>

definition triggerCheckNow ::
  "world \<Rightarrow> int \<Rightarrow> system \<Rightarrow> MonitorCheckedPayload option task \<times> system" where
  "triggerCheckNow w ident sys =
     (case monitor_endpoints sys ident of
        None \<Rightarrow> (returns None, sys)
      | Some endpoint \<Rightarrow> runCheck w endpoint sys)"

section \<open>Sample data\<close>

text \<open>An HTTP endpoint as the control plane stores it, with the defaults of the table.\<close>

definition sample_endpoint :: MonitorEndpoint where
  "sample_endpoint =
    \<lparr>endpoint_id = 12, group_id = 3, group_name = Some ''Payments'', name = ''Payments API'',
     monitor_type = Http, url = ''https://api.example.com/payments/health'',
     method_ep = ''GET'', headers_json = JNull, body_text = None, expected_status = 200,
     expected_json_path = None, expected_json_value = None, connection_json = JNull,
     probe_command = None, expected_probe_value = None, interval_seconds = 60,
     down_retries = 3, up_retries = 1, status = Some Pending, consecutive_failures = 0,
     consecutive_successes = 0, is_paused = 0\<rparr>"

text \<open>
  The endpoint states of the scenario of the specification: thresholds
  \<open>downRetries = 3\<close> and \<open>upRetries = 2\<close>.
\<close>

definition scenario :: "MonitorStatus \<Rightarrow> int \<Rightarrow> int \<Rightarrow> MonitorEndpoint" where
  "scenario st f s =
     sample_endpoint\<lparr>down_retries := 3, up_retries := 2, status := Some st,
                     consecutive_failures := f, consecutive_successes := s\<rparr>"

text \<open>A world in which every operation succeeds at once.\<close>

definition answering_world :: world where
  "answering_world =
    \<lparr>requestTimeoutMs = 10000, notifications_enabled = True, notification_targets = [],
     db_now = 1000, started_at = 5000, finished_at = 5120,
     iso_now = ''2026-02-20T15:30:00.000Z'', abort_message = ''The operation was aborted.'',
     http_fetch = (\<lambda>request. Returns \<lparr>response_status = 200, response_text = Returns ''''\<rparr>),
     mysql_createConnection = (\<lambda>target. Returns ()),
     mysql_query = (\<lambda>query. Returns (JArr [JObj [(''health'', JNum 1)]])),
     mysql_end = Returns (),
     redis_createClient = (\<lambda>options. None),
     redis_connect = Returns (),
     redis_sendCommand = (\<lambda>command. Returns (JStr ''PONG'')),
     redis_isOpen = True,
     redis_quit = Returns (),
     redis_destroy = None,
     nats_connect = (\<lambda>options. Returns ()),
     nats_jetstreamManager = Returns (),
     nats_getAccountInfo = Returns (JObj []),
     nats_streamInfo = (\<lambda>stream. Returns (JObj [(''config'', JObj [(''name'', JStr stream)])])),
     nats_close = Returns (),
     tcp_connect = (\<lambda>host port. Returns ()),
     notify_fetch = (\<lambda>target.
        Returns \<lparr>response_ok = True, response_status_nr = 200,
                 response_json = Returns (JObj [(''ok'', JBool True)]),
                 response_body = Returns ''''\<rparr>)\<rparr>"

text \<open>
  Three notification targets: a Slack target and a webhook for both events, and a
  webhook that subscribes to \<open>up\<close> only.
\<close>

definition slack_target :: NotificationTarget where
  "slack_target =
    \<lparr>target_name = ''slack-default'', target_type = ''slack'', target_url = [],
     target_events = Some [''up'', ''down'']\<rparr>"

definition webhook_target :: NotificationTarget where
  "webhook_target =
    \<lparr>target_name = ''ops-webhook'', target_type = ''webhook'',
     target_url = ''https://ops.example.com/hook'', target_events = Some [''up'', ''down'']\<rparr>"

definition recovery_target :: NotificationTarget where
  "recovery_target =
    \<lparr>target_name = ''recovery-webhook'', target_type = ''webhook'',
     target_url = ''https://ops.example.com/recovered'', target_events = Some [''up'']\<rparr>"

text \<open>A world with the three targets in which every request to Slack is refused.\<close>

definition failing_slack_world :: world where
  "failing_slack_world =
     answering_world
       \<lparr>notification_targets := [slack_target, webhook_target, recovery_target],
        notify_fetch := (\<lambda>target.
           if target_type target = ''slack'' then Throws (Error ''connect ECONNREFUSED'')
           else notify_fetch answering_world target)\<rparr>"

text \<open>
  The row of the sample endpoint, never checked and due at second 940, and a system
  that holds only this row.
\<close>

definition sample_row :: EndpointRow where
  "sample_row =
     MonitorEndpoint.extend sample_endpoint
       (EndpointRow.fields None None None None 940)"

definition sample_system :: system where
  "sample_system =
     \<lparr>monitor_endpoints = [12 \<mapsto> sample_row], monitor_check_runs = [], emitted = []\<rparr>"

text \<open>
  Endpoints of the other kinds. The TCP endpoint names port 70000; the unparsable one
  holds a connection text that is not JSON; the Redis endpoint holds a URL without its
  colon; the MySQL endpoint probes with a statement that sleeps for an hour; the NATS
  endpoints ask for the account information and for a stream with an empty name.
\<close>

definition tcp_endpoint :: MonitorEndpoint where
  \<open>tcp_endpoint =
     sample_endpoint\<lparr>monitor_type := Tcp, url := ''tcp://10.0.0.5:70000'',
                     connection_json := JStr ''{"host":"10.0.0.5","port":70000}''\<rparr>\<close>

definition unparsable_endpoint :: MonitorEndpoint where
  \<open>unparsable_endpoint =
     sample_endpoint\<lparr>monitor_type := Tcp, url := ''tcp://10.0.0.5:5432'',
                     connection_json := JStr ''{host: "10.0.0.5", port: 5432''\<rparr>\<close>

definition unsupported_method_endpoint :: MonitorEndpoint where
  "unsupported_method_endpoint = sample_endpoint\<lparr>method_ep := ''FETCH''\<rparr>"

definition redis_endpoint :: MonitorEndpoint where
  "redis_endpoint =
     sample_endpoint\<lparr>monitor_type := Redis, url := ''redis://cache:6379'',
                     connection_json := JObj [(''url'', JStr ''redis//cache:6379'')]\<rparr>"

definition mysql_endpoint :: MonitorEndpoint where
  "mysql_endpoint =
     sample_endpoint\<lparr>monitor_type := Mysql, url := ''mysql://10.0.0.9:3306'',
                     connection_json := JObj [(''host'', JStr ''10.0.0.9'')],
                     probe_command := Some ''SELECT SLEEP(3600)''\<rparr>"

definition nats_endpoint :: MonitorEndpoint where
  "nats_endpoint =
     sample_endpoint\<lparr>monitor_type := Nats, url := ''nats://10.0.0.7:4222'',
                     connection_json := JObj [(''servers'', JArr [JStr ''nats://10.0.0.7:4222''])]\<rparr>"

definition nameless_stream_endpoint :: MonitorEndpoint where
  "nameless_stream_endpoint = nats_endpoint\<lparr>probe_command := Some ''stream.info: ''\<rparr>"

text \<open>A world in which every notification request is answered with status 503.\<close>

definition unavailable_world :: world where
  "unavailable_world =
     answering_world
       \<lparr>notification_targets := [webhook_target],
        notify_fetch := (\<lambda>target.
           Returns \<lparr>response_ok = False, response_status_nr = 503,
                    response_json = Returns JNull,
                    response_body = Returns ''unavailable''\<rparr>)\<rparr>"

section \<open>Properties of the JSON reader\<close>

text \<open>
  Every value is at least one character long, so the length tests in \<open>parse_elements\<close>
  and \<open>parse_members\<close> never reject a text: both functions satisfy the equations
  without the tests.
\<close>

lemma lex_sign_shorter: "lex_sign cs = (neg, r) \<Longrightarrow> length r \<le> length cs"
  by (auto simp add: lex_sign_def split: list.splits if_splits)

lemma lex_fraction_shorter: "lex_fraction cs = (fp, r) \<Longrightarrow> length r \<le> length cs"
  using length_dropWhile_le [of is_digit "tl cs"]
  by (auto simp add: lex_fraction_def split: list.splits if_splits)

lemma lex_exponent_shorter: "lex_exponent cs = Some (ex, r) \<Longrightarrow> length r \<le> length cs"
proof (cases cs)
  case Nil
  then show "lex_exponent cs = Some (ex, r) \<Longrightarrow> length r \<le> length cs"
    by (simp add: lex_exponent_def)
next
  case (Cons c rest)
  assume a: "lex_exponent cs = Some (ex, r)"
  obtain neg r1 where s: "lex_sign rest = (neg, r1)"
    by (cases "lex_sign rest")
  from lex_sign_shorter [OF s] have "length r1 \<le> length rest" .
  moreover have "length (dropWhile is_digit r1) \<le> length r1"
    by (rule length_dropWhile_le)
  ultimately show "length r \<le> length cs"
    using a Cons s by (auto simp add: lex_exponent_def split: if_splits)
qed

lemma lex_json_number_shorter:
  assumes "lex_json_number cs = Some (x, r)"
  shows "length r < length cs"
proof -
  define neg where "neg = (case cs of [] \<Rightarrow> False | c # r \<Rightarrow> c = CHR ''-'')"
  define cs1 where "cs1 = (if neg then tl cs else cs)"
  define ip where "ip = (case cs1 of [] \<Rightarrow> [] | c # r \<Rightarrow> if c = CHR ''0'' then [c] else takeWhile is_digit cs1)"
  define cs2 where "cs2 = drop (length ip) cs1"
  have unfolded: "lex_json_number cs =
      (if ip = [] then None
       else (case cs2 of
               [] \<Rightarrow> Some (decimal_value neg ip [] 0, cs2)
             | d # r \<Rightarrow>
                 (case lex_fraction cs2 of (fp, cs3) \<Rightarrow>
                    if d = CHR ''.'' \<and> fp = [] then None
                    else (case lex_exponent cs3 of
                            None \<Rightarrow> None
                          | Some (ex, cs4) \<Rightarrow> Some (decimal_value neg ip fp ex, cs4)))))"
    unfolding lex_json_number_def Let_def neg_def cs1_def ip_def cs2_def by (rule refl)
  from assms unfolded have nonempty: "ip \<noteq> []"
    by (auto split: if_splits)
  have "length ip \<le> length cs1"
    using length_takeWhile_le [of is_digit cs1]
    by (auto simp add: ip_def split: list.splits)
  with nonempty have "length cs2 < length cs1"
    by (cases ip) (auto simp add: cs2_def)
  moreover have "length cs1 \<le> length cs"
    by (simp add: cs1_def)
  ultimately have short: "length cs2 < length cs"
    by simp
  show ?thesis
  proof (cases cs2)
    case Nil
    with assms unfolded nonempty short show ?thesis by simp
  next
    case (Cons d rest)
    obtain fp cs3 where f: "lex_fraction cs2 = (fp, cs3)"
      by (cases "lex_fraction cs2")
    from assms unfolded nonempty Cons f
    obtain ex where e: "lex_exponent cs3 = Some (ex, r)"
      by (auto split: if_splits option.splits)
    from lex_fraction_shorter [OF f] lex_exponent_shorter [OF e] short
    show ?thesis by simp
  qed
qed

lemma literal_shorter: "literal w v cs = Some (x, r) \<Longrightarrow> length r \<le> length cs"
  by (auto simp add: literal_def split: if_splits)

lemma parse_shorter:
  "parse_value cs = Some (v, r) \<longrightarrow> length r < length cs"
  "parse_elements acc cs = Some (v, r) \<longrightarrow> length r < length cs"
  "parse_members macc cs = Some (v, r) \<longrightarrow> length r < length cs"
proof (induction cs and acc cs and macc cs arbitrary: v r and v r and v r
       rule: parse_value_parse_elements_parse_members.induct)
  case 1
  then show ?case by (simp add: parse_value.simps)
next
  case (2 c cs)
  show ?case
  proof
    assume a: "parse_value (c # cs) = Some (v, r)"
    consider (ws) "is_json_ws c"
      | (array) "\<not> is_json_ws c" "c = CHR ''[''"
      | (object) "\<not> is_json_ws c" "c \<noteq> CHR ''[''" "c = CHR ''{''"
      | (other) "\<not> is_json_ws c" "c \<noteq> CHR ''[''" "c \<noteq> CHR ''{''"
      by blast
    then show "length r < length (c # cs)"
    proof cases
      case ws
      with a have "parse_value cs = Some (v, r)"
        by (simp add: parse_value.simps)
      with 2(1) [OF ws, of v r] have "length r < length cs"
        by blast
      then show ?thesis by simp
    next
      case array
      show ?thesis
      proof (cases "next_is CHR '']'' cs")
        case True
        with a array have "r = after_ws cs"
          by (simp add: parse_value.simps)
        then show ?thesis using length_after_ws [of cs] by simp
      next
        case False
        with a array have "parse_elements [] cs = Some (v, r)"
          by (simp add: parse_value.simps)
        with 2(2) [OF array False, of v r] have "length r < length cs"
          by blast
        then show ?thesis by simp
      qed
    next
      case object
      show ?thesis
      proof (cases "next_is CHR ''}'' cs")
        case True
        with a object have "r = after_ws cs"
          by (simp add: parse_value.simps)
        then show ?thesis using length_after_ws [of cs] by simp
      next
        case False
        with a object have "parse_members [] cs = Some (v, r)"
          by (simp add: parse_value.simps)
        with 2(3) [OF object False, of v r] have "length r < length cs"
          by blast
        then show ?thesis by simp
      qed
    next
      case other
      from a other have
        "(\<exists>s. lex_string [] cs = Some (s, r))
         \<or> (\<exists>w x. literal w x cs = Some (v, r))
         \<or> (\<exists>x. lex_json_number (c # cs) = Some (x, r))"
        by (auto simp add: parse_value.simps split: if_splits option.splits)
      then show ?thesis
        using lex_string_shorter [of "[]" cs _ r] literal_shorter [of _ _ cs v r]
          lex_json_number_shorter [of "c # cs" _ r]
        by fastforce
    qed
  qed
next
  case (3 acc cs)
  show ?case
  proof
    assume a: "parse_elements acc cs = Some (v, r)"
    then obtain v0 r0 where p: "parse_value cs = Some (v0, r0)" and l: "length r0 < length cs"
      by (auto simp add: parse_value.simps split: option.splits if_splits)
    show "length r < length cs"
    proof (cases "next_is CHR '','' r0")
      case True
      with a p l have "parse_elements (acc @ [v0]) (after_ws r0) = Some (v, r)"
        by (simp add: parse_value.simps)
      with 3(2) [OF p refl l True, of v r] have "length r < length (after_ws r0)"
        by blast
      with l length_after_ws [of r0] show ?thesis by simp
    next
      case False
      with a p l have "r = after_ws r0"
        by (simp add: parse_value.simps split: if_splits)
      with l length_after_ws [of r0] show ?thesis by simp
    qed
  qed
next
  case (4 macc cs)
  show ?case
  proof
    assume a: "parse_members macc cs = Some (v, r)"
    then obtain k r1 v0 r2 where q: "next_is CHR 0x22 cs"
      and s: "lex_string [] (after_ws cs) = Some (k, r1)"
      and colon: "next_is CHR '':'' r1"
      and p: "parse_value (after_ws r1) = Some (v0, r2)"
      and l: "length r2 < length cs"
      by (auto simp add: parse_value.simps split: option.splits if_splits)
    show "length r < length cs"
    proof (cases "next_is CHR '','' r2")
      case True
      with a q s colon p l have "parse_members (macc @ [(k, v0)]) (after_ws r2) = Some (v, r)"
        by (simp add: parse_value.simps)
      moreover have "parse_members (macc @ [(k, v0)]) (after_ws r2) = Some (v, r)
                       \<longrightarrow> length r < length (after_ws r2)"
        using 4(2) [of "(k, r1)" k r1 "(v0, r2)" v0 r2 v r] q s colon p l True by blast
      ultimately have "length r < length (after_ws r2)"
        by simp
      with l length_after_ws [of r2] show ?thesis by simp
    next
      case False
      with a q s colon p l have "r = after_ws r2"
        by (simp add: parse_value.simps split: if_splits)
      with l length_after_ws [of r2] show ?thesis by simp
    qed
  qed
qed

lemma parse_elements_unguarded:
  "parse_elements acc cs =
     (case parse_value cs of
        None \<Rightarrow> None
      | Some (v, r) \<Rightarrow>
          if next_is CHR '','' r then parse_elements (acc @ [v]) (after_ws r)
          else if next_is CHR '']'' r then Some (JArr (acc @ [v]), after_ws r)
          else None)"
  using parse_shorter(1) [of cs]
  by (auto simp add: parse_value.simps split: option.splits)

lemma parse_members_unguarded:
  "parse_members acc cs =
     (if \<not> next_is CHR 0x22 cs then None
      else (case lex_string [] (after_ws cs) of
              None \<Rightarrow> None
            | Some (k, r1) \<Rightarrow>
                if \<not> next_is CHR '':'' r1 then None
                else (case parse_value (after_ws r1) of
                        None \<Rightarrow> None
                      | Some (v, r2) \<Rightarrow>
                          if next_is CHR '','' r2 then parse_members (acc @ [(k, v)]) (after_ws r2)
                          else if next_is CHR ''}'' r2 then Some (JObj (acc @ [(k, v)]), after_ws r2)
                          else None)))"
proof -
  have "length r2 < length cs"
    if "lex_string [] (after_ws cs) = Some (k, r1)" and "parse_value (after_ws r1) = Some (v, r2)"
    for k r1 v r2
    using that parse_shorter(1) [of "after_ws r1" v r2] length_after_ws [of r1]
      lex_string_shorter [of "[]" "after_ws cs" k r1] length_after_ws [of cs]
    by simp
  then show ?thesis
    by (auto simp add: parse_value.simps split: option.splits)
qed

section \<open>Properties of the status state machine\<close>

lemma number_or_floor: "max 1 (number_or x 1) = max 1 x"
  by (simp add: number_or_def)

lemma number_or_zero: "number_or x 0 = x"
  by (simp add: number_or_def)

lemma computeStatus_pass:
  "computeStatus e True =
     \<lparr>status_sc =
        (if status_or_pending (status e) = Down
         then (if max 1 (up_retries e) \<le> consecutive_successes e + 1 then Up else Down)
         else Up),
      failures = 0,
      successes = consecutive_successes e + 1\<rparr>"
  by (simp add: computeStatus_def Let_def number_or_floor number_or_zero)

lemma computeStatus_fail:
  "computeStatus e False =
     \<lparr>status_sc =
        (if max 1 (down_retries e) \<le> consecutive_failures e + 1 then Down
         else status_or_pending (status e)),
      failures = consecutive_failures e + 1,
      successes = 0\<rparr>"
  by (simp add: computeStatus_def Let_def number_or_floor number_or_zero)

text \<open>
  Claim C1. With both retry counts floored to 1 (\<open>max 1\<close>): a passing probe increments
  the successes and resets the failures, a \<open>Down\<close> endpoint becomes \<open>Up\<close> only when the
  new successes reach \<open>upRetries\<close> and stays \<open>Down\<close> otherwise, and a \<open>Pending\<close> or \<open>Up\<close>
  endpoint becomes \<open>Up\<close> at once. A failing probe increments the failures and resets the
  successes, and the endpoint becomes \<open>Down\<close> exactly when the new failures reach
  \<open>downRetries\<close>, whatever its status was (otherwise the status is unchanged). The
  scenario from \<open>(pending, 0, 0)\<close> with thresholds 3 and 2 runs as the specification says.
\<close>

theorem computeStatus_state_machine:
  "computeStatus e True =
     \<lparr>status_sc =
        (if status_or_pending (status e) = Down
         then (if max 1 (up_retries e) \<le> consecutive_successes e + 1 then Up else Down)
         else Up),
      failures = 0,
      successes = consecutive_successes e + 1\<rparr>
   \<and> computeStatus e False =
     \<lparr>status_sc =
        (if max 1 (down_retries e) \<le> consecutive_failures e + 1 then Down
         else status_or_pending (status e)),
      failures = consecutive_failures e + 1,
      successes = 0\<rparr>
   \<and> computeStatus (scenario Pending 0 0) False = \<lparr>status_sc = Pending, failures = 1, successes = 0\<rparr>
   \<and> computeStatus (scenario Pending 1 0) False = \<lparr>status_sc = Pending, failures = 2, successes = 0\<rparr>
   \<and> computeStatus (scenario Pending 2 0) False = \<lparr>status_sc = Down, failures = 3, successes = 0\<rparr>
   \<and> computeStatus (scenario Down 3 0) True = \<lparr>status_sc = Down, failures = 0, successes = 1\<rparr>
   \<and> computeStatus (scenario Down 0 1) True = \<lparr>status_sc = Up, failures = 0, successes = 2\<rparr>"
  unfolding computeStatus_pass computeStatus_fail
  by (simp add: scenario_def status_or_pending_def)

text \<open>
  The write of \<^verbatim>\<open>runCheck\<close> keeps the counters of the table nonnegative when the checked
  endpoint has nonnegative counters, so the property holds in every state reached from
  new rows by checks.
\<close>

lemma computeStatus_nonnegative:
  assumes "0 \<le> consecutive_failures e" and "0 \<le> consecutive_successes e"
  shows "0 \<le> failures (computeStatus e v) \<and> 0 \<le> successes (computeStatus e v)"
  using assms by (cases v) (simp_all add: computeStatus_pass computeStatus_fail)

lemma update_endpoint_counters_nonnegative:
  assumes "counters_nonnegative table"
    and "0 \<le> consecutive_failures e" and "0 \<le> consecutive_successes e"
  shows "counters_nonnegative
           (update_endpoint now (computeStatus e v) result interval ident table)"
proof (cases "table ident")
  case None
  then show ?thesis using assms(1) by (simp add: update_endpoint_def)
next
  case (Some row)
  let ?row' = "row\<lparr>status := Some (status_sc (computeStatus e v)),
                consecutive_failures := failures (computeStatus e v),
                consecutive_successes := successes (computeStatus e v),
                last_checked_at := Some now,
                last_response_code := responseCode result,
                last_error := errorMessage result,
                last_match_value := matchedValue result,
                next_check_at := now + interval\<rparr>"
  have upd: "update_endpoint now (computeStatus e v) result interval ident table =
               table(ident \<mapsto> ?row')"
    using Some by (simp add: update_endpoint_def)
  have new: "0 \<le> consecutive_failures ?row' \<and> 0 \<le> consecutive_successes ?row'"
    using computeStatus_nonnegative [OF assms(2,3), of v] by simp
  have "ran (table(ident \<mapsto> ?row')) \<subseteq> insert ?row' (ran table)"
    by (auto simp add: ran_def)
  then show ?thesis
    unfolding upd counters_nonnegative_def using assms(1) new
    unfolding counters_nonnegative_def by blast
qed

text \<open>
  Claim C10. The counters of an endpoint are never negative (the data model of the
  specification; the table starts them at 0 and only results of \<^verbatim>\<open>computeStatus\<close> are
  written back). From such a state both returned counters are nonnegative. For every
  state at least one returned counter is 0, and after a passing probe the returned
  status is \<open>Up\<close> or \<open>Down\<close>, never \<open>Pending\<close>.
\<close>

theorem computeStatus_counter_invariant:
  "(0 \<le> consecutive_failures e \<and> 0 \<le> consecutive_successes e \<longrightarrow>
      0 \<le> failures (computeStatus e v) \<and> 0 \<le> successes (computeStatus e v))
   \<and> (failures (computeStatus e v) = 0 \<or> successes (computeStatus e v) = 0)
   \<and> (v \<longrightarrow> status_sc (computeStatus e v) = Up \<or> status_sc (computeStatus e v) = Down)"
  by (cases v) (simp_all add: computeStatus_pass computeStatus_fail)

theorem computeStatus_counter_invariant_witness:
  "0 \<le> consecutive_failures (scenario Down 3 0) \<and> 0 \<le> consecutive_successes (scenario Down 3 0)
   \<and> 0 \<le> failures (computeStatus (scenario Down 3 0) True)
   \<and> 0 \<le> successes (computeStatus (scenario Down 3 0) True)
   \<and> (failures (computeStatus (scenario Down 3 0) True) = 0
        \<or> successes (computeStatus (scenario Down 3 0) True) = 0)
   \<and> (status_sc (computeStatus (scenario Down 3 0) True) = Up
        \<or> status_sc (computeStatus (scenario Down 3 0) True) = Down)"
  using computeStatus_counter_invariant [of "scenario Down 3 0" True]
  by (simp add: scenario_def)

section \<open>Properties of the comparator\<close>

lemma validate_absent:
  "validateExpectedProbeValue actual None =
     \<lparr>ok = True, matchedValue_pv = normalizeComparable actual, errorMessage_pv = None\<rparr>"
  by (simp add: validateExpectedProbeValue_def)

lemma validate_blank:
  "trim raw = [] \<Longrightarrow>
   validateExpectedProbeValue actual (Some raw) =
     \<lparr>ok = True, matchedValue_pv = normalizeComparable actual, errorMessage_pv = None\<rparr>"
  by (simp add: validateExpectedProbeValue_def)

lemma validate_given:
  "trim raw \<noteq> [] \<Longrightarrow>
   validateExpectedProbeValue actual (Some raw) =
     \<lparr>ok = deepEqual actual (case JSON_parse (trim raw) of Some v \<Rightarrow> v | None \<Rightarrow> JStr (trim raw)),
      matchedValue_pv = normalizeComparable actual,
      errorMessage_pv =
        (if deepEqual actual (case JSON_parse (trim raw) of Some v \<Rightarrow> v | None \<Rightarrow> JStr (trim raw))
         then None else Some ''Probe value mismatch'')\<rparr>"
  by (simp add: validateExpectedProbeValue_def parseExpectedValue_def Let_def)

lemma deepEqual_objects:
  "is_object l \<Longrightarrow> is_object r \<Longrightarrow> deepEqual l r = (JSON_stringify l = JSON_stringify r)"
  by (simp add: deepEqual_def is_object_def)

lemma deepEqual_primitives:
  "\<not> is_object l \<Longrightarrow> \<not> is_object r \<Longrightarrow> deepEqual l r = (l = r)"
  by (auto simp add: deepEqual_def is_object_def strict_equals_def)

lemma normalizeComparable_object:
  "is_object v \<Longrightarrow> normalizeComparable v = Some (JSON_stringify v)"
  by (auto simp add: normalizeComparable_def is_object_def typeof_object_def)

lemma normalizeComparable_primitive:
  "\<not> is_object v \<Longrightarrow> \<not> nullish v \<Longrightarrow> normalizeComparable v = Some (String v)"
  by (auto simp add: normalizeComparable_def is_object_def nullish_def)

lemma compare_number_example:
  \<open>validateExpectedProbeValue (JNum 5) (Some ''5'') =
     \<lparr>ok = True, matchedValue_pv = Some ''5'', errorMessage_pv = None\<rparr>\<close>
  by code_simp

lemma compare_object_example:
  \<open>validateExpectedProbeValue (JObj [(''a'', JNum 1)]) (Some ''{"a":1}'') =
     \<lparr>ok = True, matchedValue_pv = Some ''{"a":1}'', errorMessage_pv = None\<rparr>\<close>
  by code_simp

lemma compare_case_example:
  \<open>validateExpectedProbeValue (JStr ''PONG'') (Some ''"pong"'') =
     \<lparr>ok = False, matchedValue_pv = Some ''PONG'',
      errorMessage_pv = Some ''Probe value mismatch''\<rparr>\<close>
  by code_simp

text \<open>
  Claim C3. The comparator \<^verbatim>\<open>validateExpectedProbeValue\<close>: an expected value that is
  absent or trims to the empty string succeeds, and the matched value is the canonical
  form of the actual value (\<^verbatim>\<open>undefined\<close> maps to the marker \<open>__UNDEFINED__\<close>, \<^verbatim>\<open>null\<close>
  to \<^verbatim>\<open>null\<close>, an object or array to its JSON text, anything else to its string).
  Otherwise the trimmed expected value is parsed as JSON, or kept as a string when it
  does not parse, and compared with \<^verbatim>\<open>deepEqual\<close>: equality of the JSON texts for two
  objects or arrays, equality of the values for two primitives. A mismatch gives the
  error \<open>Probe value mismatch\<close>. The three examples of the specification follow.
\<close>

theorem validateExpectedProbeValue_comparator:
  \<open>validateExpectedProbeValue actual None =
     \<lparr>ok = True, matchedValue_pv = normalizeComparable actual, errorMessage_pv = None\<rparr>
   \<and> (trim raw = [] \<longrightarrow>
        validateExpectedProbeValue actual (Some raw) =
          \<lparr>ok = True, matchedValue_pv = normalizeComparable actual, errorMessage_pv = None\<rparr>)
   \<and> (trim raw \<noteq> [] \<longrightarrow>
        validateExpectedProbeValue actual (Some raw) =
          \<lparr>ok = deepEqual actual
                  (case JSON_parse (trim raw) of Some v \<Rightarrow> v | None \<Rightarrow> JStr (trim raw)),
           matchedValue_pv = normalizeComparable actual,
           errorMessage_pv =
             (if deepEqual actual
                   (case JSON_parse (trim raw) of Some v \<Rightarrow> v | None \<Rightarrow> JStr (trim raw))
              then None else Some ''Probe value mismatch'')\<rparr>)
   \<and> (is_object l \<and> is_object r \<longrightarrow> deepEqual l r = (JSON_stringify l = JSON_stringify r))
   \<and> (\<not> is_object l \<and> \<not> is_object r \<longrightarrow> deepEqual l r = (l = r))
   \<and> normalizeComparable JUndefined = Some ''__UNDEFINED__''
   \<and> normalizeComparable JNull = None
   \<and> (is_object actual \<longrightarrow> normalizeComparable actual = Some (JSON_stringify actual))
   \<and> (\<not> is_object actual \<and> \<not> nullish actual \<longrightarrow>
        normalizeComparable actual = Some (String actual))
   \<and> validateExpectedProbeValue (JNum 5) (Some ''5'') =
        \<lparr>ok = True, matchedValue_pv = Some ''5'', errorMessage_pv = None\<rparr>
   \<and> validateExpectedProbeValue (JObj [(''a'', JNum 1)]) (Some ''{"a":1}'') =
        \<lparr>ok = True, matchedValue_pv = Some ''{"a":1}'', errorMessage_pv = None\<rparr>
   \<and> validateExpectedProbeValue (JStr ''PONG'') (Some ''"pong"'') =
        \<lparr>ok = False, matchedValue_pv = Some ''PONG'',
         errorMessage_pv = Some ''Probe value mismatch''\<rparr>\<close>
proof -
  have undefined_marker: "normalizeComparable JUndefined = Some ''__UNDEFINED__''"
    by (simp add: normalizeComparable_def)
  have null_kept: "normalizeComparable JNull = None"
    by (simp add: normalizeComparable_def)
  show ?thesis
    using validate_absent [of actual] validate_blank [of raw actual]
      validate_given [of raw actual] deepEqual_objects [of l r] deepEqual_primitives [of l r]
      normalizeComparable_object [of actual] normalizeComparable_primitive [of actual]
      undefined_marker null_kept
      compare_number_example compare_object_example compare_case_example
    by blast
qed

theorem validateExpectedProbeValue_comparator_witness:
  \<open>trim ''5'' \<noteq> [] \<and> \<not> is_object (JNum 5) \<and> \<not> nullish (JNum 5)
   \<and> validateExpectedProbeValue (JNum 5) (Some ''5'') =
        \<lparr>ok = deepEqual (JNum 5) (case JSON_parse (trim ''5'') of Some v \<Rightarrow> v | None \<Rightarrow> JStr (trim ''5'')),
         matchedValue_pv = normalizeComparable (JNum 5),
         errorMessage_pv =
           (if deepEqual (JNum 5) (case JSON_parse (trim ''5'') of Some v \<Rightarrow> v | None \<Rightarrow> JStr (trim ''5''))
            then None else Some ''Probe value mismatch'')\<rparr>
   \<and> deepEqual (JNum 5) (JNum 5) = (JNum 5 = JNum 5)
   \<and> normalizeComparable (JNum 5) = Some (String (JNum 5))
   \<and> trim ''  '' = [] \<and> is_object (JArr [])
   \<and> validateExpectedProbeValue (JArr []) (Some ''  '') =
        \<lparr>ok = True, matchedValue_pv = normalizeComparable (JArr []), errorMessage_pv = None\<rparr>
   \<and> deepEqual (JArr []) (JArr []) = (JSON_stringify (JArr []) = JSON_stringify (JArr []))
   \<and> normalizeComparable (JArr []) = Some (JSON_stringify (JArr []))\<close>
proof -
  have given: "trim ''5'' \<noteq> []"
    by code_simp
  have primitive: "\<not> is_object (JNum 5)" "\<not> nullish (JNum 5)"
    by (simp_all add: is_object_def typeof_object_def nullish_def)
  have blank: "trim ''  '' = []"
    by code_simp
  have object: "is_object (JArr [])"
    by (simp add: is_object_def typeof_object_def)
  show ?thesis
    using validateExpectedProbeValue_comparator [of "JNum 5" "''5''" "JNum 5" "JNum 5"]
      validateExpectedProbeValue_comparator [of "JArr []" "''  ''" "JArr []" "JArr []"]
      given primitive blank object
    by blast
qed

section \<open>Properties of tasks\<close>

lemma await_log: "fst (await (console_log s) k) = fst (k ())"
  by (simp add: await_def console_log_def perform_def split: prod.splits)

lemma try_catch_returning_handler:
  "fst (try_catch m (\<lambda>error. returns (f error))) \<noteq> Throws x"
  by (cases m) (simp add: try_catch_def returns_def split: outcome.splits)

lemma try_finally_throws:
  "fst (try_finally m f) = Throws x \<Longrightarrow> fst m = Throws x \<or> fst f = Throws x"
  by (cases m; cases f) (auto simp add: try_finally_def split: outcome.splits)

lemma guarded_throws:
  "fst (try_finally (try_catch m (\<lambda>error. returns (g error))) f) = Throws x \<Longrightarrow>
   fst f = Throws x"
  using try_finally_throws [of "try_catch m (\<lambda>error. returns (g error))" f x]
    try_catch_returning_handler [of m g x]
  by blast

lemma withTimeout_never_hangs: "fst (withTimeout p t l) \<noteq> Hangs"
  by (cases p) (simp add: withTimeout_def split: outcome.splits)

lemma promise_all_effects: "snd (promise_all ts) = concat (map snd ts)"
  by (simp add: promise_all_def)

lemma all_settled_never_throws:
  "(\<And>r e. r \<in> set rs \<Longrightarrow> r \<noteq> Throws e) \<Longrightarrow> all_settled rs \<noteq> Throws e"
proof (induction rs)
  case Nil
  then show ?case by simp
next
  case (Cons r rs)
  have "all_settled rs \<noteq> Throws e"
    using Cons by simp
  moreover have "\<And>e'. r \<noteq> Throws e'"
    using Cons.prems by simp
  ultimately show ?case
    by (cases r; cases "all_settled rs") simp_all
qed

lemma promise_all_never_throws:
  assumes "\<And>t e. t \<in> set ts \<Longrightarrow> fst t \<noteq> Throws e"
  shows "fst (promise_all ts) \<noteq> Throws e"
proof -
  have "\<And>r e'. r \<in> set (map fst ts) \<Longrightarrow> r \<noteq> Throws e'"
    using assms by force
  then have "all_settled (map fst ts) \<noteq> Throws e"
    by (rule all_settled_never_throws)
  then show ?thesis
    by (simp add: promise_all_def)
qed

lemma filter_concat_map:
  "filter P (concat (map f xs)) = concat (map (\<lambda>x. filter P (f x)) xs)"
  by (induction xs) simp_all

lemma concat_map_if:
  "concat (map (\<lambda>x. if P x then [f x] else []) xs) = map f (filter P xs)"
  by (induction xs) simp_all

section \<open>Properties of the notification dispatcher\<close>

text \<open>
  The payload builders are not modelled as a source of failure: they fail only on an
  event whose \<^verbatim>\<open>checkedAt\<close> is not a date, and \<^verbatim>\<open>runCheck\<close> always passes an ISO
  timestamp.
\<close>

lemma notifyTarget_effects: "snd (notifyTarget w target event) = [NotifyFetch target event]"
  by (simp add: notifyTarget_def await_def perform_def throw_def returns_def catch_value_def
      split: outcome.splits prod.splits)

lemma notifyTarget_transport_failure:
  "notify_fetch w target = Throws error \<Longrightarrow> fst (notifyTarget w target event) = Throws error"
  by (simp add: notifyTarget_def perform_def await_def)

lemma notifyTarget_rejects_failed_response:
  assumes "notify_fetch w target = Returns response"
      and "\<not> response_ok response"
      and "response_json response \<noteq> Hangs"
      and "response_body response \<noteq> Hangs"
  shows "\<exists>m. fst (notifyTarget w target event) = Throws (Error m)"
proof (cases "target_type target = ''slack''")
  case True
  then show ?thesis
    using assms
    by (cases "response_json response")
       (simp_all add: notifyTarget_def perform_def await_def catch_value_def throw_def)
next
  case False
  then show ?thesis
    using assms
    by (cases "response_body response")
       (simp_all add: notifyTarget_def perform_def await_def catch_value_def throw_def)
qed

lemma notify_one_never_throws: "fst (notify_one w event target) \<noteq> Throws e"
  by (simp add: notify_one_def try_catch_def returns_def console_error_def perform_def
      split: outcome.splits prod.splits exn.splits)

lemma notify_one_network:
  "filter is_network (snd (notify_one w event target)) =
     (if subscribed target (currentStatus event) then [NotifyFetch target event] else [])"
proof (cases "notifyTarget w target event")
  case (Pair r es)
  with notifyTarget_effects [of w target event] have es: "es = [NotifyFetch target event]"
    by simp
  show ?thesis
    using Pair es
    by (cases r)
       (simp_all add: notify_one_def try_catch_def returns_def console_error_def perform_def
          is_network_def)
qed

lemma notify_one_logs_failure:
  assumes "subscribed target (currentStatus event)"
      and "fst (notifyTarget w target event) = Throws error"
  shows "notify_one w event target =
           (Returns (),
            [NotifyFetch target event,
             ConsoleError
               (''[notify] target=''
                @ (if target_name target \<noteq> [] then target_name target else target_type target)
                @ '' event='' @ status_name (currentStatus event) @ '' failed: ''
                @ (case error of Error m \<Rightarrow> m | Thrown v \<Rightarrow> String v))])"
proof (cases "notifyTarget w target event")
  case (Pair r es)
  with notifyTarget_effects [of w target event] assms(2)
  have "notifyTarget w target event = (Throws error, [NotifyFetch target event])"
    by simp
  then show ?thesis
    using assms(1)
    by (simp add: notify_one_def try_catch_def console_error_def perform_def)
qed

lemma notifyStatusChange_never_throws: "fst (notifyStatusChange w event) \<noteq> Throws e"
proof -
  have "fst (promise_all (map (notify_one w event) (notification_targets w))) \<noteq> Throws e"
    by (rule promise_all_never_throws) (auto simp add: notify_one_never_throws)
  then show ?thesis
    by (cases "promise_all (map (notify_one w event) (notification_targets w))")
       (auto simp add: notifyStatusChange_def console_log_def perform_def await_def returns_def
          split: outcome.splits)
qed

lemma notifyStatusChange_noop:
  "\<not> notifications_enabled w \<or> \<not> isValidEvent (currentStatus event) \<or> notification_targets w = [] \<Longrightarrow>
   notifyStatusChange w event =
     (Returns (),
      [ConsoleLog (''[notify] status change detected for endpoint=''
                   @ show_int (endpointId event) @ '' status=''
                   @ status_name (currentStatus event))])"
  by (auto simp add: notifyStatusChange_def console_log_def perform_def await_def returns_def)

lemma notifyStatusChange_attempts:
  assumes "notifications_enabled w" "isValidEvent (currentStatus event)"
  shows "filter is_network (snd (notifyStatusChange w event)) =
           map (\<lambda>t. NotifyFetch t event)
             (filter (\<lambda>t. subscribed t (currentStatus event)) (notification_targets w))"
proof (cases "notification_targets w = []")
  case True
  then show ?thesis
    using notifyStatusChange_noop [of w event] by (simp add: is_network_def)
next
  case False
  let ?all = "promise_all (map (notify_one w event) (notification_targets w))"
  have "snd (notifyStatusChange w event) =
          ConsoleLog (''[notify] status change detected for endpoint=''
                      @ show_int (endpointId event) @ '' status=''
                      @ status_name (currentStatus event)) # snd ?all"
    using assms False
    by (cases ?all)
       (auto simp add: notifyStatusChange_def console_log_def perform_def await_def returns_def
          split: outcome.splits)
  moreover have "filter is_network (snd ?all) =
      map (\<lambda>t. NotifyFetch t event)
        (filter (\<lambda>t. subscribed t (currentStatus event)) (notification_targets w))"
    unfolding promise_all_effects map_map comp_def filter_concat_map notify_one_network
    by (rule concat_map_if)
  ultimately show ?thesis
    by (simp add: is_network_def)
qed

lemma notifyStatusChange_effects:
  assumes "notifications_enabled w" "isValidEvent (currentStatus event)"
      and "target \<in> set (notification_targets w)"
  shows "set (snd (notify_one w event target)) \<subseteq> set (snd (notifyStatusChange w event))"
proof -
  let ?all = "promise_all (map (notify_one w event) (notification_targets w))"
  have nonempty: "notification_targets w \<noteq> []"
    using assms(3) by auto
  have "set (snd ?all) \<subseteq> set (snd (notifyStatusChange w event))"
    using assms(1,2) nonempty
    by (cases ?all)
       (auto simp add: notifyStatusChange_def console_log_def perform_def await_def returns_def
          split: outcome.splits)
  moreover have "set (snd (notify_one w event target)) \<subseteq> set (snd ?all)"
    using assms(3) by (auto simp add: promise_all_effects)
  ultimately show ?thesis
    by blast
qed

text \<open>
  Claim C8. \<^verbatim>\<open>notifyStatusChange\<close> does nothing but write its first log line when
  notifications are disabled, when the new status is not \<open>up\<close> or \<open>down\<close>, or when no
  target is configured. Otherwise the requests it starts are exactly one per target
  that subscribes to the new status, in the order of the configuration and whatever the
  world answers to any of them. A delivery that fails (the request is refused, or the
  answer is not a success) throws inside \<^verbatim>\<open>notifyTarget\<close>; the failure of a subscribed
  target is written to the error log, and \<^verbatim>\<open>notifyStatusChange\<close> itself never throws.
\<close>

theorem notifyStatusChange_isolates_failures:
  "(\<not> notifications_enabled w \<or> \<not> isValidEvent (currentStatus event) \<or> notification_targets w = []
      \<longrightarrow> notifyStatusChange w event =
            (Returns (),
             [ConsoleLog (''[notify] status change detected for endpoint=''
                          @ show_int (endpointId event) @ '' status=''
                          @ status_name (currentStatus event))]))
   \<and> (notifications_enabled w \<and> isValidEvent (currentStatus event) \<longrightarrow>
        filter is_network (snd (notifyStatusChange w event)) =
          map (\<lambda>t. NotifyFetch t event)
            (filter (\<lambda>t. subscribed t (currentStatus event)) (notification_targets w)))
   \<and> (notifications_enabled w \<and> isValidEvent (currentStatus event)
        \<and> target \<in> set (notification_targets w) \<and> subscribed target (currentStatus event)
        \<and> fst (notifyTarget w target event) = Throws error \<longrightarrow>
        ConsoleError
          (''[notify] target=''
           @ (if target_name target \<noteq> [] then target_name target else target_type target)
           @ '' event='' @ status_name (currentStatus event) @ '' failed: ''
           @ (case error of Error m \<Rightarrow> m | Thrown v \<Rightarrow> String v))
          \<in> set (snd (notifyStatusChange w event)))
   \<and> (notify_fetch w target = Throws error \<longrightarrow>
        fst (notifyTarget w target event) = Throws error)
   \<and> (notify_fetch w target = Returns response \<and> \<not> response_ok response
        \<and> response_json response \<noteq> Hangs \<and> response_body response \<noteq> Hangs \<longrightarrow>
        (\<exists>m. fst (notifyTarget w target event) = Throws (Error m)))
   \<and> fst (notifyStatusChange w event) \<noteq> Throws e"
proof (intro conjI impI)
  assume "\<not> notifications_enabled w \<or> \<not> isValidEvent (currentStatus event) \<or> notification_targets w = []"
  then show "notifyStatusChange w event =
      (Returns (),
       [ConsoleLog (''[notify] status change detected for endpoint=''
                    @ show_int (endpointId event) @ '' status=''
                    @ status_name (currentStatus event))])"
    by (rule notifyStatusChange_noop)
next
  assume "notifications_enabled w \<and> isValidEvent (currentStatus event)"
  then show "filter is_network (snd (notifyStatusChange w event)) =
      map (\<lambda>t. NotifyFetch t event)
        (filter (\<lambda>t. subscribed t (currentStatus event)) (notification_targets w))"
    by (simp add: notifyStatusChange_attempts)
next
  assume a: "notifications_enabled w \<and> isValidEvent (currentStatus event)
        \<and> target \<in> set (notification_targets w) \<and> subscribed target (currentStatus event)
        \<and> fst (notifyTarget w target event) = Throws error"
  then have "set (snd (notify_one w event target)) \<subseteq> set (snd (notifyStatusChange w event))"
    by (simp add: notifyStatusChange_effects)
  then show "ConsoleError
          (''[notify] target=''
           @ (if target_name target \<noteq> [] then target_name target else target_type target)
           @ '' event='' @ status_name (currentStatus event) @ '' failed: ''
           @ (case error of Error m \<Rightarrow> m | Thrown v \<Rightarrow> String v))
          \<in> set (snd (notifyStatusChange w event))"
    using a notify_one_logs_failure [of target event w error] by auto
next
  assume "notify_fetch w target = Throws error"
  then show "fst (notifyTarget w target event) = Throws error"
    by (rule notifyTarget_transport_failure)
next
  assume "notify_fetch w target = Returns response \<and> \<not> response_ok response
        \<and> response_json response \<noteq> Hangs \<and> response_body response \<noteq> Hangs"
  then show "\<exists>m. fst (notifyTarget w target event) = Throws (Error m)"
    using notifyTarget_rejects_failed_response [of w target response event] by blast
next
  show "fst (notifyStatusChange w event) \<noteq> Throws e"
    by (rule notifyStatusChange_never_throws)
qed

text \<open>
  Witness for C8: with Slack refusing every request, both subscribed targets are still
  attempted, the failure is logged and nothing is thrown; with notifications disabled
  nothing is sent; an answer with status 503 makes the delivery throw.
\<close>

theorem notifyStatusChange_isolates_failures_witness:
  "filter is_network (snd (notifyStatusChange failing_slack_world startup_event)) =
     [NotifyFetch slack_target startup_event, NotifyFetch webhook_target startup_event]
   \<and> ConsoleError (''[notify] target=slack-default event=down failed: connect ECONNREFUSED'')
        \<in> set (snd (notifyStatusChange failing_slack_world startup_event))
   \<and> fst (notifyStatusChange failing_slack_world startup_event) \<noteq> Throws (Error ''connect ECONNREFUSED'')
   \<and> notifyStatusChange (answering_world\<lparr>notifications_enabled := False\<rparr>) startup_event =
        (Returns (),
         [ConsoleLog (''[notify] status change detected for endpoint=''
                      @ show_int (endpointId startup_event) @ '' status=''
                      @ status_name (currentStatus startup_event))])
   \<and> (\<exists>m. fst (notifyTarget unavailable_world webhook_target startup_event) = Throws (Error m))"
proof -
  have enabled: "notifications_enabled failing_slack_world"
    by (simp add: failing_slack_world_def answering_world_def)
  have valid: "isValidEvent (currentStatus startup_event)"
    by (simp add: isValidEvent_def startup_event_def)
  have configured: "slack_target \<in> set (notification_targets failing_slack_world)"
    by (simp add: failing_slack_world_def)
  have wanted: "subscribed slack_target (currentStatus startup_event)"
    by (simp add: subscribed_def slack_target_def startup_event_def status_name_def)
  have refused: "notify_fetch failing_slack_world slack_target = Throws (Error ''connect ECONNREFUSED'')"
    by (simp add: failing_slack_world_def slack_target_def)
  have subscribers:
    "filter (\<lambda>t. subscribed t (currentStatus startup_event))
       (notification_targets failing_slack_world) = [slack_target, webhook_target]"
    by (simp add: failing_slack_world_def subscribed_def slack_target_def webhook_target_def
        recovery_target_def startup_event_def status_name_def)
  have disabled_flag: "\<not> notifications_enabled (answering_world\<lparr>notifications_enabled := False\<rparr>)"
    by simp
  have line: "''[notify] target=''
           @ (if target_name slack_target \<noteq> [] then target_name slack_target
              else target_type slack_target)
           @ '' event='' @ status_name (currentStatus startup_event) @ '' failed: ''
           @ (case Error ''connect ECONNREFUSED'' of Error m \<Rightarrow> m | Thrown v \<Rightarrow> String v)
        = ''[notify] target=slack-default event=down failed: connect ECONNREFUSED''"
    by (simp add: slack_target_def startup_event_def status_name_def)
  have answered:
    "notify_fetch unavailable_world webhook_target =
       Returns \<lparr>response_ok = False, response_status_nr = 503, response_json = Returns JNull,
                response_body = Returns ''unavailable''\<rparr>"
    by (simp add: unavailable_world_def)
  note failing =
    notifyStatusChange_isolates_failures
      [of failing_slack_world startup_event slack_target "Error ''connect ECONNREFUSED''"
          _ "Error ''connect ECONNREFUSED''"]
  note disabled =
    notifyStatusChange_isolates_failures
      [of "answering_world\<lparr>notifications_enabled := False\<rparr>" startup_event]
  note unavailable =
    notifyStatusChange_isolates_failures
      [of unavailable_world startup_event webhook_target _
          "\<lparr>response_ok = False, response_status_nr = 503, response_json = Returns JNull,
            response_body = Returns ''unavailable''\<rparr>"]
  from failing refused
  have thrown: "fst (notifyTarget failing_slack_world slack_target startup_event)
                  = Throws (Error ''connect ECONNREFUSED'')"
    by blast
  from failing enabled valid
  have "filter is_network (snd (notifyStatusChange failing_slack_world startup_event)) =
          map (\<lambda>t. NotifyFetch t startup_event)
            (filter (\<lambda>t. subscribed t (currentStatus startup_event))
               (notification_targets failing_slack_world))"
    by blast
  then have attempts:
    "filter is_network (snd (notifyStatusChange failing_slack_world startup_event)) =
       [NotifyFetch slack_target startup_event, NotifyFetch webhook_target startup_event]"
    by (simp only: subscribers list.map)
  from failing enabled valid configured wanted thrown
  have "ConsoleError
          (''[notify] target=''
           @ (if target_name slack_target \<noteq> [] then target_name slack_target
              else target_type slack_target)
           @ '' event='' @ status_name (currentStatus startup_event) @ '' failed: ''
           @ (case Error ''connect ECONNREFUSED'' of Error m \<Rightarrow> m | Thrown v \<Rightarrow> String v))
          \<in> set (snd (notifyStatusChange failing_slack_world startup_event))"
    by blast
  then have logged:
    "ConsoleError (''[notify] target=slack-default event=down failed: connect ECONNREFUSED'')
       \<in> set (snd (notifyStatusChange failing_slack_world startup_event))"
    by (simp only: line)
  from failing
  have contained:
    "fst (notifyStatusChange failing_slack_world startup_event)
       \<noteq> Throws (Error ''connect ECONNREFUSED'')"
    by blast
  from disabled disabled_flag
  have noop:
    "notifyStatusChange (answering_world\<lparr>notifications_enabled := False\<rparr>) startup_event =
        (Returns (),
         [ConsoleLog (''[notify] status change detected for endpoint=''
                      @ show_int (endpointId startup_event) @ '' status=''
                      @ status_name (currentStatus startup_event))])"
    by blast
  from unavailable answered
  have rejected: "\<exists>m. fst (notifyTarget unavailable_world webhook_target startup_event) = Throws (Error m)"
    by simp
  show ?thesis
    using attempts logged contained noop rejected by blast
qed

text \<open>
  Claim C7. The claim says that no notification is delivered outside the execution of a
  check. The module src/server/notifier.js ends with a timer that calls
  \<^verbatim>\<open>notifyStatusChange\<close> with a fixed event two seconds after it is loaded: with one
  target configured, the request is sent although no check has run.
\<close>

theorem startup_timer_notifies_without_check:
  "notifier_startup_timer (answering_world\<lparr>notification_targets := [slack_target]\<rparr>) =
     (Returns (),
      [ConsoleLog ''[notify] notifier initialized'',
       ConsoleLog ''[notify] status change detected for endpoint=12 status=down'',
       NotifyFetch slack_target startup_event])"
  by code_simp

section \<open>Properties of running a check\<close>

text \<open>
  Inside \<^verbatim>\<open>runCheck\<close> the dispatcher is reached only through a transition: a paused
  endpoint, a probe that throws or hangs, and a check that leaves the status unchanged
  or \<open>Pending\<close> have no effects but those of the probe.
\<close>

lemma runCheck_paused: "is_paused endpoint = 1 \<Longrightarrow> runCheck w endpoint sys = (returns None, sys)"
  by (simp add: runCheck_def)

lemma runCheck_probe_throws:
  "is_paused endpoint \<noteq> 1 \<Longrightarrow> run_probe w endpoint = (Throws e, es) \<Longrightarrow>
   runCheck w endpoint sys = ((Throws e, es), sys)"
  by (simp add: runCheck_def Let_def)

lemma runCheck_probe_hangs:
  "is_paused endpoint \<noteq> 1 \<Longrightarrow> run_probe w endpoint = (Hangs, es) \<Longrightarrow>
   runCheck w endpoint sys = ((Hangs, es), sys)"
  by (simp add: runCheck_def Let_def)

lemma runCheck_without_transition:
  assumes "is_paused endpoint \<noteq> 1"
      and "run_probe w endpoint = (Returns result, es)"
      and "status_or_pending (status endpoint) = status_sc (computeStatus endpoint (checkPassed result))
           \<or> status_sc (computeStatus endpoint (checkPassed result)) = Pending"
  shows "snd (fst (runCheck w endpoint sys)) = es"
  using assms by (auto simp add: runCheck_def Let_def)

lemma runCheck_persists:
  assumes "is_paused endpoint \<noteq> 1" and "run_probe w endpoint = (Returns result, es)"
  shows "monitor_endpoints (snd (runCheck w endpoint sys)) =
           update_endpoint (db_now w) (computeStatus endpoint (checkPassed result)) result
             (interval_seconds endpoint) (endpoint_id endpoint) (monitor_endpoints sys)"
  using assms by (simp add: runCheck_def Let_def)

lemma update_endpoint_row:
  assumes "table ident = Some row"
  shows "\<exists>row'. update_endpoint now next result interval ident table ident = Some row'
           \<and> last_checked_at row' = Some now
           \<and> next_check_at row' = now + interval
           \<and> interval_seconds row' = interval_seconds row"
  using assms by (simp add: update_endpoint_def)

lemma sample_probe:
  "run_probe answering_world sample_row =
     (Returns \<lparr>checkPassed = True, responseCode = Some 200, matchedValue = None,
               errorMessage = None\<rparr>,
      [HttpFetch \<lparr>req_url = ''https://api.example.com/payments/health'', req_method = ''GET'',
                  req_headers = [], req_body = None\<rparr>])"
  by code_simp

text \<open>
  Claim C2. An executed check is a check of an endpoint that is not paused whose probe
  returned a result. When the row of the endpoint exists, the \<^verbatim>\<open>UPDATE\<close> of
  \<^verbatim>\<open>runCheck\<close> stores the check time \<open>db_now\<close> as \<open>last_checked_at\<close> and the check time
  plus \<open>interval_seconds\<close> of the endpoint as \<open>next_check_at\<close>. For a manual check
  (\<^verbatim>\<open>triggerCheckNow\<close>) the endpoint is the stored row, so the new \<open>next_check_at\<close> is
  the check time plus the interval of the row itself.
\<close>

theorem runCheck_advances_next_check_at:
  "(is_paused endpoint \<noteq> 1 \<and> run_probe w endpoint = (Returns result, es)
      \<and> monitor_endpoints sys (endpoint_id endpoint) = Some row
    \<longrightarrow> (\<exists>row'. monitor_endpoints (snd (runCheck w endpoint sys)) (endpoint_id endpoint) = Some row'
               \<and> last_checked_at row' = Some (db_now w)
               \<and> next_check_at row' = db_now w + interval_seconds endpoint))
   \<and> (monitor_endpoints sys ident = Some stored \<and> endpoint_id stored = ident
       \<and> is_paused stored \<noteq> 1 \<and> run_probe w stored = (Returns result', es')
    \<longrightarrow> (\<exists>row'. monitor_endpoints (snd (triggerCheckNow w ident sys)) ident = Some row'
               \<and> last_checked_at row' = Some (db_now w)
               \<and> next_check_at row' = db_now w + interval_seconds row'))"
proof (intro conjI impI)
  assume a: "is_paused endpoint \<noteq> 1 \<and> run_probe w endpoint = (Returns result, es)
      \<and> monitor_endpoints sys (endpoint_id endpoint) = Some row"
  then have "monitor_endpoints (snd (runCheck w endpoint sys)) =
           update_endpoint (db_now w) (computeStatus endpoint (checkPassed result)) result
             (interval_seconds endpoint) (endpoint_id endpoint) (monitor_endpoints sys)"
    by (simp add: runCheck_persists)
  moreover from a have "monitor_endpoints sys (endpoint_id endpoint) = Some row"
    by simp
  ultimately show "\<exists>row'. monitor_endpoints (snd (runCheck w endpoint sys)) (endpoint_id endpoint) = Some row'
               \<and> last_checked_at row' = Some (db_now w)
               \<and> next_check_at row' = db_now w + interval_seconds endpoint"
    using update_endpoint_row [of "monitor_endpoints sys" "endpoint_id endpoint" row "db_now w"
        "computeStatus endpoint (checkPassed result)" result "interval_seconds endpoint"]
    by auto
next
  assume a: "monitor_endpoints sys ident = Some stored \<and> endpoint_id stored = ident
       \<and> is_paused stored \<noteq> 1 \<and> run_probe w stored = (Returns result', es')"
  then have "monitor_endpoints (snd (triggerCheckNow w ident sys)) =
           update_endpoint (db_now w) (computeStatus stored (checkPassed result')) result'
             (interval_seconds stored) ident (monitor_endpoints sys)"
    using runCheck_persists [of stored w result' es' sys]
    by (simp add: triggerCheckNow_def)
  then show "\<exists>row'. monitor_endpoints (snd (triggerCheckNow w ident sys)) ident = Some row'
               \<and> last_checked_at row' = Some (db_now w)
               \<and> next_check_at row' = db_now w + interval_seconds row'"
    using a update_endpoint_row [of "monitor_endpoints sys" ident stored "db_now w"
        "computeStatus stored (checkPassed result')" result' "interval_seconds stored"]
    by auto
qed

text \<open>Witness for C2: the sample endpoint, checked at second 1000 with interval 60.\<close>

theorem runCheck_advances_next_check_at_witness:
  "is_paused sample_row \<noteq> 1
   \<and> monitor_endpoints sample_system (endpoint_id sample_row) = Some sample_row
   \<and> endpoint_id sample_row = 12
   \<and> run_probe answering_world sample_row =
        (Returns \<lparr>checkPassed = True, responseCode = Some 200, matchedValue = None,
                  errorMessage = None\<rparr>,
         [HttpFetch \<lparr>req_url = ''https://api.example.com/payments/health'',
                     req_method = ''GET'', req_headers = [], req_body = None\<rparr>])
   \<and> (\<exists>row'. monitor_endpoints (snd (runCheck answering_world sample_row sample_system)) 12
                  = Some row'
              \<and> last_checked_at row' = Some 1000 \<and> next_check_at row' = 1000 + 60)
   \<and> (\<exists>row'. monitor_endpoints (snd (triggerCheckNow answering_world 12 sample_system)) 12
                  = Some row'
              \<and> last_checked_at row' = Some 1000
              \<and> next_check_at row' = 1000 + interval_seconds row')"
proof -
  have running: "is_paused sample_row \<noteq> 1"
    by code_simp
  have stored: "monitor_endpoints sample_system (endpoint_id sample_row) = Some sample_row"
    by (simp add: sample_system_def sample_row_def sample_endpoint_def MonitorEndpoint.defs)
  have ident: "endpoint_id sample_row = 12"
    by code_simp
  have now: "db_now answering_world = 1000"
    by code_simp
  have interval: "interval_seconds sample_row = 60"
    by code_simp
  note advanced =
    runCheck_advances_next_check_at
      [of sample_row answering_world
          "\<lparr>checkPassed = True, responseCode = Some 200, matchedValue = None, errorMessage = None\<rparr>"
          "[HttpFetch \<lparr>req_url = ''https://api.example.com/payments/health'',
                       req_method = ''GET'', req_headers = [], req_body = None\<rparr>]"
          sample_system sample_row 12 sample_row
          "\<lparr>checkPassed = True, responseCode = Some 200, matchedValue = None, errorMessage = None\<rparr>"
          "[HttpFetch \<lparr>req_url = ''https://api.example.com/payments/health'',
                       req_method = ''GET'', req_headers = [], req_body = None\<rparr>]"]
  from advanced running stored sample_probe
  have "\<exists>row'. monitor_endpoints (snd (runCheck answering_world sample_row sample_system))
                   (endpoint_id sample_row) = Some row'
               \<and> last_checked_at row' = Some (db_now answering_world)
               \<and> next_check_at row' = db_now answering_world + interval_seconds sample_row"
    by blast
  then have scheduled:
    "\<exists>row'. monitor_endpoints (snd (runCheck answering_world sample_row sample_system)) 12
                = Some row'
            \<and> last_checked_at row' = Some 1000 \<and> next_check_at row' = 1000 + 60"
    by (simp only: ident now interval)
  from stored ident have stored': "monitor_endpoints sample_system 12 = Some sample_row"
    by simp
  from advanced running stored' ident sample_probe
  have "\<exists>row'. monitor_endpoints (snd (triggerCheckNow answering_world 12 sample_system)) 12
                   = Some row'
               \<and> last_checked_at row' = Some (db_now answering_world)
               \<and> next_check_at row' = db_now answering_world + interval_seconds row'"
    by blast
  then have manual:
    "\<exists>row'. monitor_endpoints (snd (triggerCheckNow answering_world 12 sample_system)) 12
                = Some row'
            \<and> last_checked_at row' = Some 1000
            \<and> next_check_at row' = 1000 + interval_seconds row'"
    by (simp only: now)
  show ?thesis
    using running stored ident sample_probe scheduled manual by blast
qed

section \<open>Properties of the probe executors\<close>

lemma parseConnection_unparsable: "JSON_parse raw = None \<Longrightarrow> parseConnection (JStr raw) = JObj []"
  by (simp add: parseConnection_def parseJson_def truthy_def typeof_object_def nullish_def Let_def)

lemma parseConnection_empty_object: "parseConnection (JObj []) = JObj []"
  by (simp add: parseConnection_def truthy_def typeof_object_def isArray_def)

lemma runTcpCheck_invalid_port:
  "invalid_port (Number_of (coalesce (get_prop (parseConnection (connection_json endpoint)) ''port'')
                              (JNum 80))) \<Longrightarrow>
   runTcpCheck w endpoint =
     (Returns (check_failure ''Invalid TCP port in connection_json''), [])"
  by (simp add: runTcpCheck_def Let_def returns_def)

lemma runTcpCheck_connection:
  "parseConnection (connection_json a) = parseConnection (connection_json b) \<Longrightarrow>
   expected_probe_value a = expected_probe_value b \<Longrightarrow>
   runTcpCheck w a = runTcpCheck w b"
  unfolding runTcpCheck_def by metis

lemma http_verdict_method:
  "http_verdict (endpoint\<lparr>method_ep := m\<rparr>) = http_verdict endpoint"
  by (intro ext) (simp add: http_verdict_def)

lemma runHttpCheck_unsupported_method:
  "method_ep endpoint \<notin> ALLOWED_METHODS \<Longrightarrow>
   runHttpCheck w endpoint = runHttpCheck w (endpoint\<lparr>method_ep := ''GET''\<rparr>)"
  by (simp add: runHttpCheck_def ALLOWED_METHODS_def http_verdict_method Let_def
      cong: outcome.case_cong option.case_cong if_cong)

text \<open>
  Claim C6, as amended. An invalid TCP port is detected before any network call: the
  result is the failure \<open>Invalid TCP port in connection_json\<close> and there is no effect.
  An unsupported HTTP method is not reported: the probe runs as it does with \<open>GET\<close>. A
  connection text that is not JSON is not reported either: it is read as the empty
  object, and the TCP probe runs as it does with no connection settings.
\<close>

theorem configuration_errors_as_handled:
  "(invalid_port (Number_of (coalesce (get_prop (parseConnection (connection_json endpoint)) ''port'')
                               (JNum 80)))
      \<longrightarrow> runTcpCheck w endpoint =
            (Returns (check_failure ''Invalid TCP port in connection_json''), []))
   \<and> (method_ep endpoint \<notin> ALLOWED_METHODS
      \<longrightarrow> runHttpCheck w endpoint = runHttpCheck w (endpoint\<lparr>method_ep := ''GET''\<rparr>))
   \<and> (JSON_parse raw = None
      \<longrightarrow> parseConnection (JStr raw) = JObj []
          \<and> runTcpCheck w (endpoint\<lparr>connection_json := JStr raw\<rparr>) =
              runTcpCheck w (endpoint\<lparr>connection_json := JObj []\<rparr>))"
  using runTcpCheck_invalid_port [of endpoint w] runHttpCheck_unsupported_method [of endpoint w]
    parseConnection_unparsable [of raw]
    runTcpCheck_connection [of "endpoint\<lparr>connection_json := JStr raw\<rparr>"
       "endpoint\<lparr>connection_json := JObj []\<rparr>" w]
  by (simp add: parseConnection_empty_object)

text \<open>
  Witness for C6: port 70000, the method \<open>FETCH\<close>, and a connection text with unquoted
  keys.
\<close>

theorem configuration_errors_as_handled_witness:
  \<open>invalid_port (Number_of (coalesce (get_prop (parseConnection (connection_json tcp_endpoint)) ''port'')
                              (JNum 80)))
   \<and> runTcpCheck answering_world tcp_endpoint =
        (Returns (check_failure ''Invalid TCP port in connection_json''), [])
   \<and> method_ep unsupported_method_endpoint \<notin> ALLOWED_METHODS
   \<and> runHttpCheck answering_world unsupported_method_endpoint =
        runHttpCheck answering_world (unsupported_method_endpoint\<lparr>method_ep := ''GET''\<rparr>)
   \<and> JSON_parse ''{host: "10.0.0.5", port: 5432'' = None
   \<and> parseConnection (JStr ''{host: "10.0.0.5", port: 5432'') = JObj []
   \<and> runTcpCheck answering_world
        (tcp_endpoint\<lparr>connection_json := JStr ''{host: "10.0.0.5", port: 5432''\<rparr>) =
      runTcpCheck answering_world (tcp_endpoint\<lparr>connection_json := JObj []\<rparr>)\<close>
proof -
  have port: "invalid_port (Number_of (coalesce
                (get_prop (parseConnection (connection_json tcp_endpoint)) ''port'') (JNum 80)))"
    by code_simp
  have unsupported: "method_ep unsupported_method_endpoint \<notin> ALLOWED_METHODS"
    by code_simp
  have unparsable: \<open>JSON_parse ''{host: "10.0.0.5", port: 5432'' = None\<close>
    by code_simp
  show ?thesis
    using configuration_errors_as_handled
            [of tcp_endpoint answering_world \<open>''{host: "10.0.0.5", port: 5432''\<close>]
          configuration_errors_as_handled
            [of unsupported_method_endpoint answering_world]
          port unsupported unparsable
    by blast
qed

text \<open>
  Counterexample for C6 as stated: the endpoint with the unsupported method passes its
  check after a \<open>GET\<close> request, and the endpoint with the unparsable connection text
  passes after connecting to the default \<open>127.0.0.1:80\<close>. Neither is surfaced as a
  failed check.
\<close>

theorem configuration_defaults_counterexample:
  \<open>runHttpCheck answering_world unsupported_method_endpoint =
     (Returns \<lparr>checkPassed = True, responseCode = Some 200, matchedValue = None,
               errorMessage = None\<rparr>,
      [HttpFetch \<lparr>req_url = ''https://api.example.com/payments/health'', req_method = ''GET'',
                  req_headers = [], req_body = None\<rparr>])
   \<and> JSON_parse ''{host: "10.0.0.5", port: 5432'' = None
   \<and> runTcpCheck answering_world unparsable_endpoint =
     (Returns \<lparr>checkPassed = True, responseCode = Some 200, matchedValue = Some ''open'',
               errorMessage = None\<rparr>,
      [TcpCreateConnection ''127.0.0.1'' (Fin 80)])\<close>
  by code_simp

lemma nameless_command:
  assumes "startsWith c ''stream.info:''"
  shows "c \<noteq> ''jetstream.info''" and "c \<noteq> []"
  using assms by (auto simp add: startsWith_def)

text \<open>
  Claim C9, as amended. For a NATS probe whose command is \<open>stream.info:\<close> with an empty
  stream name, the connection is attempted first. When it is made, the check fails with
  \<open>stream.info command requires stream name\<close>, no JetStream request is sent, and the
  connection is closed (an exception of \<^verbatim>\<open>close\<close> leaves the function). When the
  connection fails or times out, the check fails with the connection error instead.
\<close>

theorem runNatsCheck_nameless_stream:
  assumes "probe_command endpoint = Some cmd"
      and "startsWith (trim cmd) ''stream.info:''"
      and "trim (drop (length ''stream.info:'') (trim cmd)) = []"
  shows "runNatsCheck w endpoint =
     (case nats_connect w (nats_options_of w (parseConnection (connection_json endpoint))) of
        Returns c \<Rightarrow>
          ((case nats_close w of
              Returns u \<Rightarrow> Returns (check_failure ''stream.info command requires stream name'')
            | Throws e \<Rightarrow> Throws e
            | Hangs \<Rightarrow> Hangs),
           [ConsoleLog (''Connecting to NATS servers: ''
                        @ JSON_stringify (parseConnection (connection_json endpoint))),
            NatsConnect (nats_options_of w (parseConnection (connection_json endpoint))),
            NatsClose])
      | Throws error \<Rightarrow>
          (Returns (check_failure (message_or error ''NATS check failed'')),
           [ConsoleLog (''Connecting to NATS servers: ''
                        @ JSON_stringify (parseConnection (connection_json endpoint))),
            NatsConnect (nats_options_of w (parseConnection (connection_json endpoint)))])
      | Hangs \<Rightarrow>
          (Returns (check_failure (''NATS connect timed out after ''
                                   @ String_jsnumber (Fin (requestTimeoutMs w)) @ ''ms'')),
           [ConsoleLog (''Connecting to NATS servers: ''
                        @ JSON_stringify (parseConnection (connection_json endpoint))),
            NatsConnect (nats_options_of w (parseConnection (connection_json endpoint)))]))"
proof -
  note command = nameless_command [OF assms(2)]
  show ?thesis
  proof (cases "nats_connect w (nats_options_of w (parseConnection (connection_json endpoint)))")
    case (Returns c)
    then show ?thesis
      using assms command
      by (cases "nats_close w")
         (simp_all add: runNatsCheck_def Let_def console_log_def perform_def await_def
            withTimeout_def try_catch_def try_finally_def returns_def)
  next
    case (Throws error)
    then show ?thesis
      using assms command
      by (simp add: runNatsCheck_def Let_def console_log_def perform_def await_def
            withTimeout_def try_catch_def try_finally_def returns_def)
  next
    case Hangs
    then show ?thesis
      using assms command
      by (simp add: runNatsCheck_def Let_def console_log_def perform_def await_def
            withTimeout_def try_catch_def try_finally_def returns_def message_or_def)
  qed
qed

text \<open>Witness for C9: the command \<open>stream.info: \<close> in the world that answers.\<close>

theorem runNatsCheck_nameless_stream_witness:
  "probe_command nameless_stream_endpoint = Some ''stream.info: ''
   \<and> startsWith (trim ''stream.info: '') ''stream.info:''
   \<and> trim (drop (length ''stream.info:'') (trim ''stream.info: '')) = []
   \<and> runNatsCheck answering_world nameless_stream_endpoint =
     (case nats_connect answering_world
             (nats_options_of answering_world
                (parseConnection (connection_json nameless_stream_endpoint))) of
        Returns c \<Rightarrow>
          ((case nats_close answering_world of
              Returns u \<Rightarrow> Returns (check_failure ''stream.info command requires stream name'')
            | Throws e \<Rightarrow> Throws e
            | Hangs \<Rightarrow> Hangs),
           [ConsoleLog (''Connecting to NATS servers: ''
                        @ JSON_stringify (parseConnection (connection_json nameless_stream_endpoint))),
            NatsConnect (nats_options_of answering_world
                           (parseConnection (connection_json nameless_stream_endpoint))),
            NatsClose])
      | Throws error \<Rightarrow>
          (Returns (check_failure (message_or error ''NATS check failed'')),
           [ConsoleLog (''Connecting to NATS servers: ''
                        @ JSON_stringify (parseConnection (connection_json nameless_stream_endpoint))),
            NatsConnect (nats_options_of answering_world
                           (parseConnection (connection_json nameless_stream_endpoint)))])
      | Hangs \<Rightarrow>
          (Returns (check_failure (''NATS connect timed out after ''
                                   @ String_jsnumber (Fin (requestTimeoutMs answering_world)) @ ''ms'')),
           [ConsoleLog (''Connecting to NATS servers: ''
                        @ JSON_stringify (parseConnection (connection_json nameless_stream_endpoint))),
            NatsConnect (nats_options_of answering_world
                           (parseConnection (connection_json nameless_stream_endpoint)))]))"
proof -
  have command: "probe_command nameless_stream_endpoint = Some ''stream.info: ''"
    by code_simp
  have form: "startsWith (trim ''stream.info: '') ''stream.info:''"
    by code_simp
  have nameless: "trim (drop (length ''stream.info:'') (trim ''stream.info: '')) = []"
    by code_simp
  show ?thesis
    using runNatsCheck_nameless_stream [OF command form nameless, of answering_world]
      command form nameless
    by blast
qed

text \<open>
  Counterexample for C9 as stated: the probe with the empty stream name connects to
  the servers before it fails, and when the connection is refused the error is that of
  the connection, not of the validation.
\<close>

theorem nameless_stream_counterexample:
  \<open>runNatsCheck answering_world nameless_stream_endpoint =
     (Returns \<lparr>checkPassed = False, responseCode = Some 500, matchedValue = None,
               errorMessage = Some ''stream.info command requires stream name''\<rparr>,
      [ConsoleLog ''Connecting to NATS servers: {"servers":["nats://10.0.0.7:4222"]}'',
       NatsConnect (NatsOptions [''nats://10.0.0.7:4222''] None None None (Fin 10000)),
       NatsClose])
   \<and> runNatsCheck
        (answering_world\<lparr>nats_connect := (\<lambda>options. Throws (Error ''CONNECTION_REFUSED''))\<rparr>)
        nameless_stream_endpoint =
     (Returns \<lparr>checkPassed = False, responseCode = Some 500, matchedValue = None,
               errorMessage = Some ''CONNECTION_REFUSED''\<rparr>,
      [ConsoleLog ''Connecting to NATS servers: {"servers":["nats://10.0.0.7:4222"]}'',
       NatsConnect (NatsOptions [''nats://10.0.0.7:4222''] None None None (Fin 10000))])\<close>
  by code_simp

subsection \<open>Exceptions\<close>

lemma outcome_case_never_throws:
  assumes "\<And>r. fst (g r) \<noteq> Throws x"
  shows "fst (case out of Returns r \<Rightarrow> g r | Throws e \<Rightarrow> (Returns (f e), a) | Hangs \<Rightarrow> (Hangs, b))
           \<noteq> Throws x"
  using assms by (cases out) simp_all

lemma runHttpCheck_never_throws: "fst (runHttpCheck w endpoint) \<noteq> Throws x"
  unfolding runHttpCheck_def Let_def
  apply (rule outcome_case_never_throws)
  apply (auto split: option.split if_splits intro!: outcome_case_never_throws)
  done

lemma runTcpCheck_never_throws: "fst (runTcpCheck w endpoint) \<noteq> Throws x"
  by (simp add: runTcpCheck_def Let_def try_catch_returning_handler) (simp add: returns_def)

lemma runMysqlCheck_never_throws: "fst (runMysqlCheck w endpoint) \<noteq> Throws x"
proof
  assume "fst (runMysqlCheck w endpoint) = Throws x"
  then show False
    apply (unfold runMysqlCheck_def Let_def)
    apply (drule guarded_throws)
    apply (cases "mysql_end w")
      apply (simp_all add: perform_def catch_value_def returns_def split: if_splits)
    done
qed

lemma runNatsCheck_throws_from_close:
  "fst (runNatsCheck w endpoint) = Throws x \<Longrightarrow> nats_close w = Throws x"
  apply (unfold runNatsCheck_def Let_def await_log)
  apply (drule guarded_throws)
  apply (simp add: perform_def returns_def split: if_splits)
  done

lemma runRedisCheck_throws_from_client:
  "fst (runRedisCheck w endpoint) = Throws x \<Longrightarrow>
     redis_createClient w (redis_options_of w (parseConnection (connection_json endpoint))) = Some x
     \<or> (redis_isOpen w \<and> (\<exists>e. redis_quit w = Throws e) \<and> redis_destroy w = Some x)"
proof (cases "redis_createClient w (redis_options_of w (parseConnection (connection_json endpoint)))")
  case (Some error)
  assume "fst (runRedisCheck w endpoint) = Throws x"
  with Some show ?thesis
    by (simp add: runRedisCheck_def Let_def throw_def)
next
  case None
  assume "fst (runRedisCheck w endpoint) = Throws x"
  with None show ?thesis
    apply (unfold runRedisCheck_def Let_def)
    apply (simp only: option.case)
    apply (drule guarded_throws)
    apply (auto simp add: returns_def split: if_splits outcome.splits option.splits)
    done
qed

text \<open>
  Claim C4. The claim says that no probe executor throws. The HTTP, MySQL and TCP
  executors never do (lemmas above). \<^verbatim>\<open>runRedisCheck\<close> calls \<^verbatim>\<open>createClient\<close> before
  its \<^verbatim>\<open>try\<close> block, so the exception for a malformed URL leaves the function; and
  \<^verbatim>\<open>runNatsCheck\<close> awaits \<^verbatim>\<open>nc.close()\<close> in its \<^verbatim>\<open>finally\<close> block with no handler, so
  a rejected close leaves the function after a probe that succeeded.
\<close>

theorem probe_executors_can_throw:
  \<open>runRedisCheck
      (answering_world\<lparr>redis_createClient := (\<lambda>options.
          if options = RedisUrl ''redis//cache:6379'' then Some (Error ''Invalid URL'') else None)\<rparr>)
      redis_endpoint =
     (Throws (Error ''Invalid URL''), [])
   \<and> runNatsCheck (answering_world\<lparr>nats_close := Throws (Error ''CONNECTION_DRAINING'')\<rparr>)
        nats_endpoint =
     (Throws (Error ''CONNECTION_DRAINING''),
      [ConsoleLog ''Connecting to NATS servers: {"servers":["nats://10.0.0.7:4222"]}'',
       NatsConnect (NatsOptions [''nats://10.0.0.7:4222''] None None None (Fin 10000)),
       NatsJetstreamManager, NatsGetAccountInfo, NatsClose])\<close>
  by code_simp

subsection \<open>Timeouts\<close>

lemma runTcpCheck_never_hangs: "fst (runTcpCheck w endpoint) \<noteq> Hangs"
proof (cases "tcp_connect w
         (String (coalesce (get_prop (parseConnection (connection_json endpoint)) ''host'') (JStr ''127.0.0.1'')))
         (Number_of (coalesce (get_prop (parseConnection (connection_json endpoint)) ''port'') (JNum 80)))")
  case (Returns u)
  then show ?thesis
    by (simp add: runTcpCheck_def Let_def returns_def perform_def withTimeout_def await_def try_catch_def)
next
  case (Throws e)
  then show ?thesis
    by (simp add: runTcpCheck_def Let_def returns_def perform_def withTimeout_def await_def try_catch_def)
next
  case Hangs
  then show ?thesis
    by (simp add: runTcpCheck_def Let_def returns_def perform_def withTimeout_def await_def try_catch_def)
qed

lemma runMysqlCheck_hangs_with_query:
  assumes "mysql_createConnection w (mysql_target_of w (parseConnection (connection_json endpoint))) = Returns ()"
      and "\<And>query. mysql_query w query = Hangs"
  shows "fst (runMysqlCheck w endpoint) = Hangs"
  using assms
  by (simp add: runMysqlCheck_def Let_def perform_def await_def try_catch_def try_finally_def)

text \<open>
  Claim C5. The claim says that the connect and the probe command of every connection
  probe are raced against a timeout. \<^verbatim>\<open>runMysqlCheck\<close> passes neither
  \<^verbatim>\<open>createConnection\<close> nor \<^verbatim>\<open>query\<close> to \<^verbatim>\<open>withTimeout\<close>: with a query that does not
  settle the probe never returns, where the Redis probe fails with the labelled
  timeout error.
\<close>

theorem mysql_probe_is_not_bounded:
  "runMysqlCheck (answering_world\<lparr>mysql_query := (\<lambda>query. Hangs)\<rparr>) mysql_endpoint =
     (Hangs,
      [MysqlCreateConnection (MysqlOptions ''10.0.0.9'' (Fin 3306) None None None 10000),
       MysqlQuery ''SELECT SLEEP(3600)''])
   \<and> runRedisCheck (answering_world\<lparr>redis_sendCommand := (\<lambda>command. Hangs)\<rparr>) redis_endpoint =
     (Returns \<lparr>checkPassed = False, responseCode = Some 500, matchedValue = None,
               errorMessage = Some ''Redis command timed out after 10000ms''\<rparr>,
      [RedisConnect (RedisUrl ''redis//cache:6379''), RedisSendCommand [''PING''], RedisQuit])"
  by code_simp

end
